theory Spec2Isabelle
  imports Main "HOL-Library.Sublist"
begin

section \<open>PhotoApp: the command-line client of main.py\<close>

text \<open>
  The program is a menu loop over seven command handlers. Each handler reads lines
  from the console, calls the database helper (\<^verbatim>\<open>datatier\<close>), the object-store helper
  (\<^verbatim>\<open>awsutil\<close>), the local file system and \<^verbatim>\<open>uuid\<close>, and prints lines.
  The handlers are embedded as state-passing functions over a \<open>world\<close>: the console
  input still to be read, the lines printed so far, the calls made to the collaborators
  so far (with what each returned), and the state of everything outside the process.
  An uncaught Python exception is the \<open>Inl\<close> branch of the result; the world at the moment
  it was raised is kept beside it.
\<close>

subsection \<open>Values, exceptions, calls\<close>

text \<open>A value of a database row as the driver hands it to Python.\<close>

datatype sqlval = SqlInt int | SqlStr string | SqlNull

type_synonym row = "sqlval list"

text \<open>
  The exceptions that can leave a handler. \<open>SystemExit n\<close> is \<^verbatim>\<open>sys.exit(n)\<close>;
  \<open>GatewayError\<close> is any exception raised inside a collaborator.
\<close>

datatype py_error =
    EOFError
  | ValueError
  | TypeError
  | IndexError
  | SystemExit int
  | GatewayError string

text \<open>One entry per call to a collaborator: its arguments and what it returned or raised.\<close>

datatype call =
    IsFile string bool
  | PathExists string bool
  | Uuid4 string
  | SetupDefaultSession string string "py_error + unit"
  | ConfigRead string
  | S3Bucket string "py_error + unit"
  | GetDbConn string int string string string "py_error + bool"
  | BucketObjectsAll "py_error + string list"
  | RetrieveOneRow string "string list" "py_error + row option"
  | RetrieveAllRows string "py_error + row list"
  | PerformAction string "string list" "py_error + int"
  | UploadFile string string "py_error + string option"
  | DownloadFile sqlval sqlval "py_error + string option"
  | DisplayImage string "py_error + unit"

record 'e world =
  stdin :: "string list"
  stdout :: "string list"
  calls :: "call list"
  ext :: 'e

text \<open>
  The collaborators, which are not part of main.py, are a parameter of every handler:
  \<^item> \<open>env_int\<close> is the builtin \<^verbatim>\<open>int\<close> on a string (\<open>None\<close>: it raises ValueError);
  \<^item> \<open>env_is_file\<close>, \<open>env_path_exists\<close> and \<open>env_suffix\<close> are
    \<^verbatim>\<open>pathlib.Path(p).is_file()\<close>, \<^verbatim>\<open>os.path.exists(p)\<close> and \<^verbatim>\<open>pathlib.Path(p).suffix\<close>;
  \<^item> \<open>env_uuid4\<close> is \<^verbatim>\<open>str(uuid.uuid4())\<close>;
  \<^item> \<open>env_setup_default_session\<close>, \<open>env_config_read\<close>, \<open>env_s3_bucket\<close> and
    \<open>env_get_dbConn\<close> are the start-up calls to boto3, ConfigParser and datatier
    (\<open>env_get_dbConn\<close> returns whether the connection is not \<^verbatim>\<open>None\<close>);
  \<^item> \<open>env_objects_all\<close> is \<^verbatim>\<open>list(bucket.objects.all())\<close>, as the keys of the objects;
  \<^item> \<open>env_retrieve_one_row\<close> (\<open>None\<close> is Python's \<^verbatim>\<open>None\<close>, \<open>Some []\<close> the empty tuple),
    \<open>env_retrieve_all_rows\<close> and \<open>env_perform_action\<close> are datatier's functions on the
    open connection;
  \<^item> \<open>env_upload_file\<close> and \<open>env_download_file\<close> are awsutil's functions on the bucket
    (\<open>None\<close> is Python's \<^verbatim>\<open>None\<close>);
  \<^item> \<open>env_display\<close> is \<^verbatim>\<open>img.imread\<close>, \<^verbatim>\<open>plt.imshow\<close> and \<^verbatim>\<open>plt.show\<close> in a row.

  The connection \<^verbatim>\<open>dbConn\<close> and the \<^verbatim>\<open>bucket\<close> object that main.py passes to
  its handlers are handles into the outside state \<open>'e\<close>, which the model passes instead.
\<close>

record 'e env =
  env_int :: "string \<Rightarrow> int option"
  env_is_file :: "'e \<Rightarrow> string \<Rightarrow> bool"
  env_path_exists :: "'e \<Rightarrow> string \<Rightarrow> bool"
  env_suffix :: "string \<Rightarrow> string"
  env_uuid4 :: "'e \<Rightarrow> string \<times> 'e"
  env_setup_default_session :: "'e \<Rightarrow> string \<Rightarrow> string \<Rightarrow> (py_error + unit) \<times> 'e"
  env_config_read :: "'e \<Rightarrow> string \<Rightarrow> py_error + (string \<Rightarrow> string \<Rightarrow> py_error + string)"
  env_s3_bucket :: "'e \<Rightarrow> string \<Rightarrow> (py_error + unit) \<times> 'e"
  env_get_dbConn ::
    "'e \<Rightarrow> string \<Rightarrow> int \<Rightarrow> string \<Rightarrow> string \<Rightarrow> string \<Rightarrow> (py_error + bool) \<times> 'e"
  env_objects_all :: "'e \<Rightarrow> (py_error + string list) \<times> 'e"
  env_retrieve_one_row :: "'e \<Rightarrow> string \<Rightarrow> string list \<Rightarrow> (py_error + row option) \<times> 'e"
  env_retrieve_all_rows :: "'e \<Rightarrow> string \<Rightarrow> (py_error + row list) \<times> 'e"
  env_perform_action :: "'e \<Rightarrow> string \<Rightarrow> string list \<Rightarrow> (py_error + int) \<times> 'e"
  env_upload_file :: "'e \<Rightarrow> string \<Rightarrow> string \<Rightarrow> (py_error + string option) \<times> 'e"
  env_download_file :: "'e \<Rightarrow> sqlval \<Rightarrow> sqlval \<Rightarrow> (py_error + string option) \<times> 'e"
  env_display :: "'e \<Rightarrow> string \<Rightarrow> (py_error + unit) \<times> 'e"

subsection \<open>Sequencing, console input and output\<close>

type_synonym ('e, 'a) io = "'e world \<Rightarrow> (py_error + 'a) \<times> 'e world"

definition ret :: "'a \<Rightarrow> ('e, 'a) io" where
  "ret x w = (Inr x, w)"

definition raise :: "py_error \<Rightarrow> ('e, 'a) io" where
  "raise e w = (Inl e, w)"

definition lift :: "py_error + 'a \<Rightarrow> ('e, 'a) io" where
  "lift r w = (r, w)"

text \<open>Statement after statement: an exception of the first skips the rest.\<close>

definition bind_io :: "('e, 'a) io \<Rightarrow> ('a \<Rightarrow> ('e, 'b) io) \<Rightarrow> ('e, 'b) io" where
  "bind_io m f w = (case m w of (Inl e, w') \<Rightarrow> (Inl e, w') | (Inr x, w') \<Rightarrow> f x w')"

text \<open>\<^verbatim>\<open>print(a, b, ...)\<close> writes its arguments separated by one space, as one line.\<close>

fun join_sp :: "string list \<Rightarrow> string" where
  "join_sp [] = []"
| "join_sp [x] = x"
| "join_sp (x # y # ys) = x @ '' '' @ join_sp (y # ys)"

definition py_print :: "string list \<Rightarrow> ('e, unit) io" where
  "py_print args w = (Inr (), w\<lparr>stdout := stdout w @ [join_sp args]\<rparr>)"

text \<open>\<^verbatim>\<open>input()\<close> takes the next line, and raises EOFError when there is none.\<close>

definition py_input :: "('e, string) io" where
  "py_input w =
     (case stdin w of
        [] \<Rightarrow> (Inl EOFError, w)
      | l # ls \<Rightarrow> (Inr l, w\<lparr>stdin := ls\<rparr>))"

text \<open>The single quote of the messages, as a string.\<close>

definition quote :: string where
  "quote = [CHR 0x27]"

text \<open>\<^verbatim>\<open>str\<close> of an integer and of a row's value.\<close>

fun str_nat :: "nat \<Rightarrow> string" where
  "str_nat n =
     (if n < 10 then [''0123456789'' ! n]
      else str_nat (n div 10) @ [''0123456789'' ! (n mod 10)])"

declare str_nat.simps [simp del]

definition str_int :: "int \<Rightarrow> string" where
  "str_int i = (if i < 0 then CHR ''-'' # str_nat (nat (- i)) else str_nat (nat i))"

fun py_str :: "sqlval \<Rightarrow> string" where
  "py_str (SqlInt i) = str_int i"
| "py_str (SqlStr s) = s"
| "py_str SqlNull = ''None''"

text \<open>\<^verbatim>\<open>xs[i]\<close> on a tuple, \<^verbatim>\<open>a + b\<close> on two values, and the truth value of a result.\<close>

definition subscript :: "row \<Rightarrow> nat \<Rightarrow> py_error + sqlval" where
  "subscript xs i = (if i < length xs then Inr (xs ! i) else Inl IndexError)"

fun py_add :: "sqlval \<Rightarrow> sqlval \<Rightarrow> py_error + sqlval" where
  "py_add (SqlStr a) (SqlStr b) = Inr (SqlStr (a @ b))"
| "py_add (SqlInt a) (SqlInt b) = Inr (SqlInt (a + b))"
| "py_add _ _ = Inl TypeError"

fun truthy_row :: "row option \<Rightarrow> bool" where
  "truthy_row None = False"
| "truthy_row (Some xs) = (xs \<noteq> [])"

subsection \<open>Calls to the collaborators\<close>

text \<open>Each call runs the collaborator on the outside state and records the call.\<close>

definition logged :: "('e \<Rightarrow> (py_error + 'a) \<times> 'e) \<Rightarrow> ((py_error + 'a) \<Rightarrow> call) \<Rightarrow> ('e, 'a) io" where
  "logged f ev w =
     (case f (ext w) of (r, e') \<Rightarrow> (r, w\<lparr>calls := calls w @ [ev r], ext := e'\<rparr>))"

definition py_int :: "'e env \<Rightarrow> string \<Rightarrow> ('e, int) io" where
  "py_int env s = (case env_int env s of None \<Rightarrow> raise ValueError | Some n \<Rightarrow> ret n)"

definition path_is_file :: "'e env \<Rightarrow> string \<Rightarrow> ('e, bool) io" where
  "path_is_file env p w =
     (let b = env_is_file env (ext w) p in (Inr b, w\<lparr>calls := calls w @ [IsFile p b]\<rparr>))"

definition os_path_exists :: "'e env \<Rightarrow> string \<Rightarrow> ('e, bool) io" where
  "os_path_exists env p w =
     (let b = env_path_exists env (ext w) p in (Inr b, w\<lparr>calls := calls w @ [PathExists p b]\<rparr>))"

definition uuid_uuid4 :: "'e env \<Rightarrow> ('e, string) io" where
  "uuid_uuid4 env w =
     (case env_uuid4 env (ext w) of
        (u, e') \<Rightarrow> (Inr u, w\<lparr>calls := calls w @ [Uuid4 u], ext := e'\<rparr>))"

definition boto3_setup_default_session :: "'e env \<Rightarrow> string \<Rightarrow> string \<Rightarrow> ('e, unit) io" where
  "boto3_setup_default_session env credentials profile =
     logged (\<lambda>e. env_setup_default_session env e credentials profile)
       (SetupDefaultSession credentials profile)"

definition configur_read ::
  "'e env \<Rightarrow> string \<Rightarrow> ('e, string \<Rightarrow> string \<Rightarrow> py_error + string) io" where
  "configur_read env config_file w =
     (env_config_read env (ext w) config_file, w\<lparr>calls := calls w @ [ConfigRead config_file]\<rparr>)"

definition s3_Bucket :: "'e env \<Rightarrow> string \<Rightarrow> ('e, unit) io" where
  "s3_Bucket env bucketname = logged (\<lambda>e. env_s3_bucket env e bucketname) (S3Bucket bucketname)"

definition datatier_get_dbConn ::
  "'e env \<Rightarrow> string \<Rightarrow> int \<Rightarrow> string \<Rightarrow> string \<Rightarrow> string \<Rightarrow> ('e, bool) io" where
  "datatier_get_dbConn env endpoint portnum username pwd dbname =
     logged (\<lambda>e. env_get_dbConn env e endpoint portnum username pwd dbname)
       (GetDbConn endpoint portnum username pwd dbname)"

definition bucket_objects_all :: "'e env \<Rightarrow> ('e, string list) io" where
  "bucket_objects_all env = logged (env_objects_all env) BucketObjectsAll"

definition datatier_retrieve_one_row ::
  "'e env \<Rightarrow> string \<Rightarrow> string list \<Rightarrow> ('e, row option) io" where
  "datatier_retrieve_one_row env sql params =
     logged (\<lambda>e. env_retrieve_one_row env e sql params) (RetrieveOneRow sql params)"

definition datatier_retrieve_all_rows :: "'e env \<Rightarrow> string \<Rightarrow> ('e, row list) io" where
  "datatier_retrieve_all_rows env sql =
     logged (\<lambda>e. env_retrieve_all_rows env e sql) (RetrieveAllRows sql)"

definition datatier_perform_action :: "'e env \<Rightarrow> string \<Rightarrow> string list \<Rightarrow> ('e, int) io" where
  "datatier_perform_action env sql params =
     logged (\<lambda>e. env_perform_action env e sql params) (PerformAction sql params)"

definition awsutil_upload_file :: "'e env \<Rightarrow> string \<Rightarrow> string \<Rightarrow> ('e, string option) io" where
  "awsutil_upload_file env local_filename key =
     logged (\<lambda>e. env_upload_file env e local_filename key) (UploadFile local_filename key)"

definition awsutil_download_file :: "'e env \<Rightarrow> sqlval \<Rightarrow> sqlval \<Rightarrow> ('e, string option) io" where
  "awsutil_download_file env key filename =
     logged (\<lambda>e. env_download_file env e key filename) (DownloadFile key filename)"

definition display_image :: "'e env \<Rightarrow> string \<Rightarrow> ('e, unit) io" where
  "display_image env filename = logged (\<lambda>e. env_display env e filename) (DisplayImage filename)"

subsection \<open>The command handlers\<close>

text \<open>\<^verbatim>\<open>prompt()\<close>: the menu, then \<^verbatim>\<open>int(input())\<close>.\<close>

definition prompt :: "'e env \<Rightarrow> ('e, int) io" where
  "prompt env =
     bind_io (py_print []) (\<lambda>_.
     bind_io (py_print [''>> Enter a command:'']) (\<lambda>_.
     bind_io (py_print [''   0 => end'']) (\<lambda>_.
     bind_io (py_print [''   1 => stats'']) (\<lambda>_.
     bind_io (py_print [''   2 => users'']) (\<lambda>_.
     bind_io (py_print [''   3 => assets'']) (\<lambda>_.
     bind_io (py_print [''   4 => download'']) (\<lambda>_.
     bind_io (py_print [''   5 => download and display'']) (\<lambda>_.
     bind_io (py_print [''   6 => upload'']) (\<lambda>_.
     bind_io (py_print [''   7 => add user'']) (\<lambda>_.
     bind_io py_input (\<lambda>s.
     py_int env s)))))))))))"

text \<open>Command 1. \<^verbatim>\<open>if users_cnt: print(..., users_cnt[0])\<close> prints for a non-empty row only.\<close>

definition print_count :: "string \<Rightarrow> row option \<Rightarrow> ('e, unit) io" where
  "print_count label cnt =
     (case cnt of
        Some (c # _) \<Rightarrow> py_print [label, py_str c]
      | _ \<Rightarrow> ret ())"

definition stats :: "'e env \<Rightarrow> string \<Rightarrow> string \<Rightarrow> ('e, unit) io" where
  "stats env bucketname endpoint =
     bind_io (py_print [''S3 bucket name:'', bucketname]) (\<lambda>_.
     bind_io (bucket_objects_all env) (\<lambda>assets.
     bind_io (py_print [''S3 assets:'', str_nat (length assets)]) (\<lambda>_.
     bind_io (py_print [''RDS MySQL endpoint:'', endpoint]) (\<lambda>_.
     bind_io (datatier_retrieve_one_row env ''SELECT COUNT(*) FROM users'' []) (\<lambda>users_cnt.
     bind_io (print_count ''# of users:'' users_cnt) (\<lambda>_.
     bind_io (datatier_retrieve_one_row env ''SELECT COUNT(*) FROM assets'' []) (\<lambda>assets_cnt.
     print_count ''# of assets:'' assets_cnt)))))))"

text \<open>
  Command 2. The body of the \<^verbatim>\<open>for\<close> loop reads \<^verbatim>\<open>user[0]\<close> to \<^verbatim>\<open>user[4]\<close> and
  concatenates the two names before it prints anything for that row.
\<close>

definition print_user :: "row \<Rightarrow> ('e, unit) io" where
  "print_user user =
     bind_io (lift (subscript user 0)) (\<lambda>id.
     bind_io (lift (subscript user 1)) (\<lambda>email.
     bind_io (lift (subscript user 2)) (\<lambda>lastname.
     bind_io (lift (py_add lastname (SqlStr '' , ''))) (\<lambda>part.
     bind_io (lift (subscript user 3)) (\<lambda>firstname.
     bind_io (lift (py_add part firstname)) (\<lambda>full_name.
     bind_io (lift (subscript user 4)) (\<lambda>folder.
     bind_io (py_print [''User Id:'', py_str id]) (\<lambda>_.
     bind_io (py_print [''  Email:'', py_str email]) (\<lambda>_.
     bind_io (py_print [''  Name:'', py_str full_name]) (\<lambda>_.
     py_print [''  Folder:'', py_str folder]))))))))))"

primrec for_each :: "('a \<Rightarrow> ('e, unit) io) \<Rightarrow> 'a list \<Rightarrow> ('e, unit) io" where
  "for_each body [] = ret ()"
| "for_each body (x # xs) = bind_io (body x) (\<lambda>_. for_each body xs)"

definition users :: "'e env \<Rightarrow> ('e, unit) io" where
  "users env =
     bind_io (datatier_retrieve_all_rows env ''SELECT * FROM users ORDER BY userid DESC'') (\<lambda>users_ls.
     for_each print_user users_ls)"

text \<open>Command 3. The row is unpacked into four names: any other length raises ValueError.\<close>

definition print_asset :: "row \<Rightarrow> ('e, unit) io" where
  "print_asset asset =
     (case asset of
        [asset_id, user_id, org_name, key_name] \<Rightarrow>
          bind_io (py_print [''Asset id:'', py_str asset_id]) (\<lambda>_.
          bind_io (py_print [''  User id:'', py_str user_id]) (\<lambda>_.
          bind_io (py_print [''  Original name:'', py_str org_name]) (\<lambda>_.
          py_print [''  Key name:'', py_str key_name])))
      | _ \<Rightarrow> raise ValueError)"

definition assets :: "'e env \<Rightarrow> ('e, unit) io" where
  "assets env =
     bind_io (datatier_retrieve_all_rows env ''SELECT * FROM assets ORDER BY assetid DESC'') (\<lambda>assets_ls.
     for_each print_asset assets_ls)"

text \<open>
  Commands 4 and 5. A string result counts as true when it is neither \<^verbatim>\<open>None\<close> nor
  empty: the pattern \<open>Some (c # cs)\<close>.
\<close>

definition download :: "'e env \<Rightarrow> bool \<Rightarrow> ('e, unit) io" where
  "download env display =
     bind_io (py_print [''Enter asset id>'']) (\<lambda>_.
     bind_io py_input (\<lambda>asset_id.
     bind_io (datatier_retrieve_one_row env
                ''SELECT bucketkey, assetname FROM assets WHERE assetid = %s'' [asset_id]) (\<lambda>file_info.
     if truthy_row file_info then
       (case file_info of
          Some [key, orginial_fname] \<Rightarrow>
            bind_io (awsutil_download_file env key orginial_fname) (\<lambda>downloaded_file.
            case downloaded_file of
              Some (c # cs) \<Rightarrow>
                bind_io (py_print [''Downloaded from S3 and saved as '' @ quote @ '' '',
                                   py_str orginial_fname, '' '' @ quote]) (\<lambda>_.
                if display then display_image env (c # cs) else ret ())
            | _ \<Rightarrow> py_print [''No such asset...''])
        | _ \<Rightarrow> raise ValueError)
     else py_print [''No such asset...''])))"

text \<open>Command 6.\<close>

definition upload :: "'e env \<Rightarrow> ('e, unit) io" where
  "upload env =
     bind_io (py_print [''Enter local filename>'']) (\<lambda>_.
     bind_io py_input (\<lambda>local_fname.
     bind_io (os_path_exists env local_fname) (\<lambda>exists.
     if \<not> exists then
       py_print [''Local file '' @ quote @ '' '' @ local_fname @ '' '' @ quote @ '' does not exist...'']
     else
     bind_io (py_print [''Enter user id>'']) (\<lambda>_.
     bind_io py_input (\<lambda>user_id.
     bind_io (datatier_retrieve_one_row env
                ''SELECT userid FROM users WHERE userid = %s'' [user_id]) (\<lambda>found.
     if \<not> truthy_row found then py_print [''No such user...'']
     else
     bind_io (uuid_uuid4 env) (\<lambda>u.
     bind_io (awsutil_upload_file env local_fname (u @ env_suffix env local_fname)) (\<lambda>s3_key.
     case s3_key of
       Some (c # cs) \<Rightarrow>
         bind_io (py_print [''Uploaded and stored in S3 as '' @ quote @ '' '' @ (c # cs) @ '' '' @ quote]) (\<lambda>_.
         bind_io (datatier_perform_action env
                    ''INSERT INTO assets(userid, assetname, bucketkey) VALUES (%s, %s, %s)''
                    [user_id, local_fname, c # cs]) (\<lambda>res.
         if res \<le> 0 then py_print [''Failed to insert asset info into the database.'']
         else
         bind_io (datatier_retrieve_one_row env ''SELECT LAST_INSERT_ID();'' []) (\<lambda>last_id.
         case last_id of
           None \<Rightarrow> raise TypeError
         | Some r \<Rightarrow>
             bind_io (lift (subscript r 0)) (\<lambda>i.
             py_print [''Recorded in RDS under asset id '', py_str i]))))
     | _ \<Rightarrow> py_print [''Failed to upload the file to S3.'']))))))))"

text \<open>Command 7.\<close>

definition add_user :: "'e env \<Rightarrow> ('e, unit) io" where
  "add_user env =
     bind_io (py_print [''Enter user'' @ quote @ ''s email>'']) (\<lambda>_.
     bind_io py_input (\<lambda>email.
     bind_io (py_print [''Enter user'' @ quote @ ''s last (family) name>'']) (\<lambda>_.
     bind_io py_input (\<lambda>last_name.
     bind_io (py_print [''Enter user'' @ quote @ ''s first (given) name>'']) (\<lambda>_.
     bind_io py_input (\<lambda>first_name.
     bind_io (uuid_uuid4 env) (\<lambda>folder.
     bind_io (datatier_perform_action env
                ''INSERT INTO users(email, lastname, firstname, bucketfolder) VALUES (%s, %s, %s, %s)''
                [email, last_name, first_name, folder]) (\<lambda>res.
     if res \<le> 0 then py_print [''Failed to insert user info into the database.'']
     else
     bind_io (datatier_retrieve_one_row env ''SELECT LAST_INSERT_ID();'' []) (\<lambda>last_id.
     case last_id of
       None \<Rightarrow> raise TypeError
     | Some r \<Rightarrow>
         bind_io (lift (subscript r 0)) (\<lambda>i.
         py_print [''Recorded in RDS under user id '', py_str i]))))))))))"

subsection \<open>The command loop\<close>

text \<open>The \<^verbatim>\<open>if\<close>/\<^verbatim>\<open>elif\<close> chain of the loop body.\<close>

definition dispatch :: "'e env \<Rightarrow> string \<Rightarrow> string \<Rightarrow> int \<Rightarrow> ('e, unit) io" where
  "dispatch env bucketname endpoint cmd =
     (if cmd = 1 then stats env bucketname endpoint
      else if cmd = 2 then users env
      else if cmd = 3 then assets env
      else if cmd = 4 then download env False
      else if cmd = 5 then download env True
      else if cmd = 6 then upload env
      else if cmd = 7 then add_user env
      else py_print [''** Unknown command, try again...''])"

text \<open>
  The loop is \<^verbatim>\<open>cmd = prompt(); while cmd != 0: <dispatch>; cmd = prompt()\<close>. One turn of
  it, from one wait for a command to the next, is \<open>loop_step\<close>: it prompts, and either
  the process ends (command 0: \<open>TERMINATED None\<close>; an uncaught exception of the prompt
  or of the handler: \<open>TERMINATED (Some e)\<close>) or the loop waits for the next command.
\<close>

datatype 'e loop_state =
    AWAITING_COMMAND "'e world"
  | TERMINATED "py_error option" "'e world"

definition loop_step :: "'e env \<Rightarrow> string \<Rightarrow> string \<Rightarrow> 'e world \<Rightarrow> 'e loop_state" where
  "loop_step env bucketname endpoint w =
     (case prompt env w of
        (Inl e, w1) \<Rightarrow> TERMINATED (Some e) w1
      | (Inr cmd, w1) \<Rightarrow>
          if cmd = 0 then TERMINATED None w1
          else (case dispatch env bucketname endpoint cmd w1 of
                  (Inl e, w2) \<Rightarrow> TERMINATED (Some e) w2
                | (Inr _, w2) \<Rightarrow> AWAITING_COMMAND w2))"

text \<open>
  The whole loop, with a bound on the number of turns (\<open>None\<close>: the bound was reached
  before the loop ended).
\<close>

fun main_loop :: "'e env \<Rightarrow> string \<Rightarrow> string \<Rightarrow> nat \<Rightarrow> 'e world \<Rightarrow> ((py_error + unit) \<times> 'e world) option" where
  "main_loop env bucketname endpoint 0 w = None"
| "main_loop env bucketname endpoint (Suc n) w =
     (case loop_step env bucketname endpoint w of
        TERMINATED None w' \<Rightarrow> Some (Inr (), w')
      | TERMINATED (Some e) w' \<Rightarrow> Some (Inl e, w')
      | AWAITING_COMMAND w' \<Rightarrow> main_loop env bucketname endpoint n w')"

subsection \<open>Start-up and the process\<close>

text \<open>
  The module's top level up to the loop: the welcome lines, the name of the config
  file, the check that it is a file, the bucket, the settings of the database and the
  connection. It returns the two settings that the stats command prints. The
  assignments to \<^verbatim>\<open>sys.tracebacklimit\<close> and to the environment variable of the
  credentials file print nothing and call nothing; the credentials file reaches the
  model as the first argument of the session set-up.
\<close>

definition startup :: "'e env \<Rightarrow> ('e, string \<times> string) io" where
  "startup env =
     bind_io (py_print [''** Welcome to PhotoApp **'']) (\<lambda>_.
     bind_io (py_print []) (\<lambda>_.
     bind_io (py_print [''What config file to use for this session?'']) (\<lambda>_.
     bind_io (py_print [''Press ENTER to use default (photoapp-config.ini),'']) (\<lambda>_.
     bind_io (py_print [''otherwise enter name of config file>'']) (\<lambda>_.
     bind_io py_input (\<lambda>s.
     let config_file = (if s = [] then ''photoapp-config.ini'' else s) in
     bind_io (path_is_file env config_file) (\<lambda>is_file.
     if \<not> is_file then
       bind_io (py_print [''**ERROR: config file '' @ quote, config_file, quote @ '' does not exist, exiting'']) (\<lambda>_.
       raise (SystemExit 0))
     else
     bind_io (boto3_setup_default_session env config_file ''s3readwrite'') (\<lambda>_.
     bind_io (configur_read env config_file) (\<lambda>configur.
     bind_io (lift (configur ''s3'' ''bucket_name'')) (\<lambda>bucketname.
     bind_io (s3_Bucket env bucketname) (\<lambda>_.
     bind_io (lift (configur ''rds'' ''endpoint'')) (\<lambda>endpoint.
     bind_io (lift (configur ''rds'' ''port_number'')) (\<lambda>port_number.
     bind_io (py_int env port_number) (\<lambda>portnum.
     bind_io (lift (configur ''rds'' ''user_name'')) (\<lambda>username.
     bind_io (lift (configur ''rds'' ''user_pwd'')) (\<lambda>pwd.
     bind_io (lift (configur ''rds'' ''db_name'')) (\<lambda>dbname.
     bind_io (datatier_get_dbConn env endpoint portnum username pwd dbname) (\<lambda>dbConn.
     if \<not> dbConn then
       bind_io (py_print [''**ERROR: unable to connect to database, exiting'']) (\<lambda>_.
       raise (SystemExit 0))
     else ret (bucketname, endpoint)))))))))))))))))))"

text \<open>The module from its first line to its last.\<close>

definition main :: "'e env \<Rightarrow> nat \<Rightarrow> 'e world \<Rightarrow> ((py_error + unit) \<times> 'e world) option" where
  "main env fuel w =
     (case startup env w of
        (Inl e, w1) \<Rightarrow> Some (Inl e, w1)
      | (Inr (bucketname, endpoint), w1) \<Rightarrow>
          (case main_loop env bucketname endpoint fuel w1 of
             None \<Rightarrow> None
           | Some (Inl e, w2) \<Rightarrow> Some (Inl e, w2)
           | Some (Inr _, w2) \<Rightarrow>
               Some (bind_io (py_print []) (\<lambda>_. py_print [''** done **'']) w2)))"

text \<open>
  The exit status of the process: 0 when the module runs to its end, the argument of
  \<^verbatim>\<open>sys.exit\<close>, and 1 for any other uncaught exception.
\<close>

fun exit_status :: "py_error + unit \<Rightarrow> int" where
  "exit_status (Inr _) = 0"
| "exit_status (Inl (SystemExit n)) = n"
| "exit_status (Inl _) = 1"

subsection \<open>Kinds of calls\<close>

text \<open>Calls to the database, writes to the database, and calls to the object store.\<close>

fun db_call :: "call \<Rightarrow> bool" where
  "db_call (GetDbConn _ _ _ _ _ _) = True"
| "db_call (RetrieveOneRow _ _ _) = True"
| "db_call (RetrieveAllRows _ _) = True"
| "db_call (PerformAction _ _ _) = True"
| "db_call _ = False"

fun db_write :: "call \<Rightarrow> bool" where
  "db_write (PerformAction _ _ _) = True"
| "db_write _ = False"

fun store_call :: "call \<Rightarrow> bool" where
  "store_call (S3Bucket _ _) = True"
| "store_call (BucketObjectsAll _) = True"
| "store_call (UploadFile _ _ _) = True"
| "store_call (DownloadFile _ _ _) = True"
| "store_call _ = False"

text \<open>An upload that returned no key: \<^verbatim>\<open>None\<close> or an empty string.\<close>

fun upload_failed :: "call \<Rightarrow> bool" where
  "upload_failed (UploadFile _ _ (Inr None)) = True"
| "upload_failed (UploadFile _ _ (Inr (Some []))) = True"
| "upload_failed _ = False"

text \<open>
  A sequence of calls in which every write to the database is the insertion of an asset
  row that carries the file name and the key of the latest upload, and that upload
  returned the key. The first argument is the latest upload that returned a key, if any.
\<close>

fun writes_follow_upload :: "(string \<times> string) option \<Rightarrow> call list \<Rightarrow> bool" where
  "writes_follow_upload up [] = True"
| "writes_follow_upload up (UploadFile local_filename key r # cs) =
     writes_follow_upload
       (case r of Inr (Some (c # k)) \<Rightarrow> Some (local_filename, c # k) | _ \<Rightarrow> None) cs"
| "writes_follow_upload up (PerformAction sql params r # cs) =
     (case up of
        None \<Rightarrow> False
      | Some (local_filename, k) \<Rightarrow>
          sql = ''INSERT INTO assets(userid, assetname, bucketkey) VALUES (%s, %s, %s)''
          \<and> length params = 3 \<and> params ! 1 = local_filename \<and> params ! 2 = k
          \<and> writes_follow_upload up cs)"
| "writes_follow_upload up (_ # cs) = writes_follow_upload up cs"

subsection \<open>An in-memory model of the collaborators\<close>

text \<open>
  Modelled from the spec: the database behind \<^verbatim>\<open>datatier\<close>, the bucket behind
  \<^verbatim>\<open>awsutil\<close>, the local files and the generator of UUIDs, none of which is in
  main.py. The spec gives the two tables (\<^verbatim>\<open>users(userid PK, email, lastname,
  firstname, bucketfolder)\<close> with a unique email, \<^verbatim>\<open>assets(assetid PK, userid FK,
  assetname, bucketkey)\<close>), the gateway contracts (\<^verbatim>\<open>retrieve_one_row -> row | empty\<close>,
  \<^verbatim>\<open>retrieve_all_rows -> sequence of rows\<close> in the order of the caller's query,
  \<^verbatim>\<open>perform_action -> affected-row-count\<close>, an underlying error propagates;
  \<^verbatim>\<open>upload(local_path, destination_key) -> destination_key | failure\<close>,
  \<^verbatim>\<open>download(source_key, destination_filename) -> local_path | failure\<close>), a single
  bucket with a flat namespace of keys, and identifiers assigned by the database on
  insertion. The model answers the nine statements that main.py sends, and raises on
  any other.
\<close>

record outside =
  local_files :: "(string \<times> string) list"
  bucket_objects :: "(string \<times> string) list"
  store_reachable :: bool
  users_table :: "(int \<times> string \<times> string \<times> string \<times> string) list"
  assets_table :: "(int \<times> int \<times> string \<times> string) list"
  last_insert_id :: int
  db_reachable :: bool
  config_files :: "(string \<times> ((string \<times> string) \<times> string) list) list"
  uuid_count :: nat

text \<open>
  Modelled from the spec: Python's \<^verbatim>\<open>int\<close> on a string of ASCII characters, as the
  command codes, the port number and the identifiers are read. White space around the
  number is dropped; a sign \<^verbatim>\<open>+\<close> or \<^verbatim>\<open>-\<close> may come first; then come decimal digits,
  with single underscores allowed between two digits; more than 4300 digits are
  refused. Digits and white space outside ASCII, which \<^verbatim>\<open>int\<close> also accepts, are
  not represented.
\<close>

definition is_space :: "char \<Rightarrow> bool" where
  "is_space c = ((of_char c :: nat) \<in> {9, 10, 11, 12, 13, 28, 29, 30, 31, 32})"

definition is_digit :: "char \<Rightarrow> bool" where
  "is_digit c = (48 \<le> (of_char c :: nat) \<and> (of_char c :: nat) \<le> 57)"

fun digits_value :: "string \<Rightarrow> nat \<Rightarrow> nat option" where
  "digits_value [] acc = Some acc"
| "digits_value (c # cs) acc =
     (if is_digit c then digits_value cs (10 * acc + ((of_char c :: nat) - 48))
      else if c = CHR ''_'' \<and> cs \<noteq> [] \<and> is_digit (hd cs) then digits_value cs acc
      else None)"

definition signed_value :: "bool \<Rightarrow> string \<Rightarrow> int option" where
  "signed_value negative body =
     (if body \<noteq> [] \<and> is_digit (hd body) \<and> length (filter is_digit body) \<le> 4300
      then map_option (\<lambda>n. if negative then - int n else int n) (digits_value body 0)
      else None)"

definition model_int :: "string \<Rightarrow> int option" where
  "model_int s =
     (case rev (dropWhile is_space (rev (dropWhile is_space s))) of
        [] \<Rightarrow> None
      | c # cs \<Rightarrow>
          if c = CHR ''-'' then signed_value True cs
          else if c = CHR ''+'' then signed_value False cs
          else signed_value False (c # cs))"

text \<open>
  Modelled from the spec: \<^verbatim>\<open>pathlib.Path(p).suffix\<close> on a POSIX path. The name is the
  last component between slashes that is neither empty nor a single dot; the suffix
  starts at the last dot of the name, unless that dot is the first or the last character
  of the name.
\<close>

fun split_path :: "string \<Rightarrow> string \<Rightarrow> string list" where
  "split_path [] cur = [rev cur]"
| "split_path (c # cs) cur =
     (if c = CHR ''/'' then rev cur # split_path cs [] else split_path cs (c # cur))"

definition path_name :: "string \<Rightarrow> string" where
  "path_name p =
     (case rev (filter (\<lambda>c. c \<noteq> [] \<and> c \<noteq> ''.'') (split_path p [])) of
        [] \<Rightarrow> []
      | name # _ \<Rightarrow> name)"

definition model_suffix :: "string \<Rightarrow> string" where
  "model_suffix p =
     (let name = path_name p;
          k = length (takeWhile (\<lambda>c. c \<noteq> CHR ''.'') (rev name))
      in if 0 < k \<and> k + 1 < length name then drop (length name - k - 1) name else [])"

text \<open>Modelled from the spec: the rows as the driver returns them.\<close>

fun user_row :: "int \<times> string \<times> string \<times> string \<times> string \<Rightarrow> row" where
  "user_row (userid, email, lastname, firstname, bucketfolder) =
     [SqlInt userid, SqlStr email, SqlStr lastname, SqlStr firstname, SqlStr bucketfolder]"

fun asset_row :: "int \<times> int \<times> string \<times> string \<Rightarrow> row" where
  "asset_row (assetid, userid, assetname, bucketkey) =
     [SqlInt assetid, SqlInt userid, SqlStr assetname, SqlStr bucketkey]"

text \<open>Modelled from the spec: the identifier a new row gets, above every one in use.\<close>

definition next_id :: "int list \<Rightarrow> int" where
  "next_id ids = fold max ids 0 + 1"

text \<open>Modelled from the spec: rows in descending order of their identifier.\<close>

definition order_desc :: "('a \<Rightarrow> int) \<Rightarrow> 'a list \<Rightarrow> 'a list" where
  "order_desc ident rows = sort_key (\<lambda>r. - ident r) rows"

text \<open>Modelled from the spec: \<^verbatim>\<open>retrieve_one_row\<close>.\<close>

definition model_retrieve_one_row ::
  "outside \<Rightarrow> string \<Rightarrow> string list \<Rightarrow> (py_error + row option) \<times> outside" where
  "model_retrieve_one_row e sql params =
     (if \<not> db_reachable e then (Inl (GatewayError ''StoreError''), e)
      else if sql = ''SELECT COUNT(*) FROM users'' \<and> params = [] then
        (Inr (Some [SqlInt (int (length (users_table e)))]), e)
      else if sql = ''SELECT COUNT(*) FROM assets'' \<and> params = [] then
        (Inr (Some [SqlInt (int (length (assets_table e)))]), e)
      else if sql = ''SELECT LAST_INSERT_ID();'' \<and> params = [] then
        (Inr (Some [SqlInt (last_insert_id e)]), e)
      else if sql = ''SELECT userid FROM users WHERE userid = %s'' \<and> length params = 1 then
        (case find (\<lambda>u. model_int (hd params) = Some (fst u)) (users_table e) of
           None \<Rightarrow> (Inr (Some []), e)
         | Some u \<Rightarrow> (Inr (Some [SqlInt (fst u)]), e))
      else if sql = ''SELECT bucketkey, assetname FROM assets WHERE assetid = %s''
              \<and> length params = 1 then
        (case find (\<lambda>a. model_int (hd params) = Some (fst a)) (assets_table e) of
           None \<Rightarrow> (Inr (Some []), e)
         | Some (assetid, userid, assetname, bucketkey) \<Rightarrow>
             (Inr (Some [SqlStr bucketkey, SqlStr assetname]), e))
      else (Inl (GatewayError ''StoreError''), e))"

text \<open>Modelled from the spec: \<^verbatim>\<open>retrieve_all_rows\<close>.\<close>

definition model_retrieve_all_rows :: "outside \<Rightarrow> string \<Rightarrow> (py_error + row list) \<times> outside" where
  "model_retrieve_all_rows e sql =
     (if \<not> db_reachable e then (Inl (GatewayError ''StoreError''), e)
      else if sql = ''SELECT * FROM users ORDER BY userid DESC'' then
        (Inr (map user_row (order_desc fst (users_table e))), e)
      else if sql = ''SELECT * FROM assets ORDER BY assetid DESC'' then
        (Inr (map asset_row (order_desc fst (assets_table e))), e)
      else (Inl (GatewayError ''StoreError''), e))"

text \<open>
  Modelled from the spec: \<^verbatim>\<open>perform_action\<close>. An insertion that breaks the unique
  email or the foreign key is an error of the store, which propagates.
\<close>

definition model_perform_action ::
  "outside \<Rightarrow> string \<Rightarrow> string list \<Rightarrow> (py_error + int) \<times> outside" where
  "model_perform_action e sql params =
     (if \<not> db_reachable e then (Inl (GatewayError ''StoreError''), e)
      else if sql = ''INSERT INTO users(email, lastname, firstname, bucketfolder) VALUES (%s, %s, %s, %s)'' then
        (case params of
           [email, lastname, firstname, bucketfolder] \<Rightarrow>
             if email \<in> set (map (\<lambda>u. fst (snd u)) (users_table e))
             then (Inl (GatewayError ''StoreError''), e)
             else
               (let userid = next_id (map fst (users_table e)) in
                (Inr 1, e\<lparr>users_table := users_table e @ [(userid, email, lastname, firstname, bucketfolder)],
                          last_insert_id := userid\<rparr>))
         | _ \<Rightarrow> (Inl (GatewayError ''StoreError''), e))
      else if sql = ''INSERT INTO assets(userid, assetname, bucketkey) VALUES (%s, %s, %s)'' then
        (case params of
           [user_id, assetname, bucketkey] \<Rightarrow>
             (case find (\<lambda>u. model_int user_id = Some (fst u)) (users_table e) of
                None \<Rightarrow> (Inl (GatewayError ''StoreError''), e)
              | Some u \<Rightarrow>
                  (let assetid = next_id (map fst (assets_table e)) in
                   (Inr 1, e\<lparr>assets_table := assets_table e @ [(assetid, fst u, assetname, bucketkey)],
                             last_insert_id := assetid\<rparr>)))
         | _ \<Rightarrow> (Inl (GatewayError ''StoreError''), e))
      else (Inl (GatewayError ''StoreError''), e))"

text \<open>
  Modelled from the spec: \<^verbatim>\<open>upload_file\<close> stores the content of the local file under
  the destination key and returns the key, or fails; \<^verbatim>\<open>download_file\<close> saves the
  blob under the destination file name and returns that name, or fails.
\<close>

definition model_upload_file ::
  "outside \<Rightarrow> string \<Rightarrow> string \<Rightarrow> (py_error + string option) \<times> outside" where
  "model_upload_file e local_filename key =
     (case map_of (local_files e) local_filename of
        None \<Rightarrow> (Inr None, e)
      | Some content \<Rightarrow>
          if store_reachable e
          then (Inr (Some key), e\<lparr>bucket_objects := (key, content) # bucket_objects e\<rparr>)
          else (Inr None, e))"

definition model_download_file ::
  "outside \<Rightarrow> sqlval \<Rightarrow> sqlval \<Rightarrow> (py_error + string option) \<times> outside" where
  "model_download_file e key filename =
     (case (key, filename) of
        (SqlStr k, SqlStr f) \<Rightarrow>
          (case map_of (bucket_objects e) k of
             None \<Rightarrow> (Inr None, e)
           | Some blob \<Rightarrow>
               if store_reachable e
               then (Inr (Some f), e\<lparr>local_files := (f, blob) # local_files e\<rparr>)
               else (Inr None, e))
      | _ \<Rightarrow> (Inl TypeError, e))"

text \<open>Modelled from the spec: the settings of a config file, by section and option.\<close>

definition model_config_read ::
  "outside \<Rightarrow> string \<Rightarrow> py_error + (string \<Rightarrow> string \<Rightarrow> py_error + string)" where
  "model_config_read e config_file =
     (case map_of (config_files e) config_file of
        None \<Rightarrow> Inr (\<lambda>section option. Inl (GatewayError ''NoSectionError''))
      | Some entries \<Rightarrow>
          Inr (\<lambda>section option.
                 if section \<notin> set (map (\<lambda>entry. fst (fst entry)) entries)
                 then Inl (GatewayError ''NoSectionError'')
                 else case map_of entries (section, option) of
                        None \<Rightarrow> Inl (GatewayError ''NoOptionError'')
                      | Some v \<Rightarrow> Inr v))"

text \<open>
  Modelled from the spec: the collaborators together. The generator of UUIDs is the
  parameter \<open>gen\<close>: the n-th call returns \<open>gen n\<close>.
\<close>

definition model_env :: "(nat \<Rightarrow> string) \<Rightarrow> outside env" where
  "model_env gen =
     \<lparr> env_int = model_int,
       env_is_file = (\<lambda>e p. p \<in> set (map fst (local_files e)) \<or> p \<in> set (map fst (config_files e))),
       env_path_exists = (\<lambda>e p. p \<in> set (map fst (local_files e)) \<or> p \<in> set (map fst (config_files e))),
       env_suffix = model_suffix,
       env_uuid4 = (\<lambda>e. (gen (uuid_count e), e\<lparr>uuid_count := Suc (uuid_count e)\<rparr>)),
       env_setup_default_session = (\<lambda>e credentials profile. (Inr (), e)),
       env_config_read = model_config_read,
       env_s3_bucket = (\<lambda>e bucketname. (Inr (), e)),
       env_get_dbConn = (\<lambda>e endpoint portnum username pwd dbname. (Inr (db_reachable e), e)),
       env_objects_all = (\<lambda>e. (Inr (map fst (bucket_objects e)), e)),
       env_retrieve_one_row = model_retrieve_one_row,
       env_retrieve_all_rows = model_retrieve_all_rows,
       env_perform_action = model_perform_action,
       env_upload_file = model_upload_file,
       env_download_file = model_download_file,
       env_display = (\<lambda>e filename. (Inr (), e)) \<rparr>"

subsection \<open>Observations and a sample installation\<close>

text \<open>The calls made between two worlds of one run.\<close>

definition new_calls :: "'e world \<Rightarrow> 'e world \<Rightarrow> call list" where
  "new_calls w w' = drop (length (calls w)) (calls w')"

text \<open>The lines that \<^verbatim>\<open>prompt()\<close> prints.\<close>

definition menu :: "string list" where
  "menu = ['''', ''>> Enter a command:'', ''   0 => end'', ''   1 => stats'', ''   2 => users'',
           ''   3 => assets'', ''   4 => download'', ''   5 => download and display'',
           ''   6 => upload'', ''   7 => add user'']"

text \<open>
  A sample installation for the model of the collaborators: one local photo, one user
  who owns one asset, a reachable database and bucket, and the default config file.
\<close>

definition example_gen :: "nat \<Rightarrow> string" where
  "example_gen n = ''7c9e6679-7425-40de-944b-e07fc1f9'' @ str_nat (1000 + n)"

definition example_outside :: outside where
  "example_outside =
     \<lparr> local_files = [(''photo.jpg'', ''JFIF'')],
       bucket_objects = [(''16fd2706-8baf-433b-82eb-8c7fada847da.jpg'', ''GIF8'')],
       store_reachable = True,
       users_table = [(80001, ''a@b.com'', ''Smith'', ''Jane'', ''3d6f0a1c-52c4-4a53-9c1e-0c5b9d5a7e11'')],
       assets_table = [(1001, 80001, ''cat.jpg'', ''16fd2706-8baf-433b-82eb-8c7fada847da.jpg'')],
       last_insert_id = 0,
       db_reachable = True,
       config_files =
         [(''photoapp-config.ini'',
           [((''s3'', ''bucket_name''), ''photoapp-bucket''),
            ((''rds'', ''endpoint''), ''mysql.example.com''),
            ((''rds'', ''port_number''), ''3306''),
            ((''rds'', ''user_name''), ''photoapp-read-write''),
            ((''rds'', ''user_pwd''), ''secret''),
            ((''rds'', ''db_name''), ''photoapp'')])],
       uuid_count = 0 \<rparr>"

definition example_world :: "string list \<Rightarrow> outside world" where
  "example_world input = \<lparr> stdin = input, stdout = [], calls = [], ext = example_outside \<rparr>"

text \<open>The lines printed between two worlds of one run.\<close>

definition new_lines :: "'e world \<Rightarrow> 'e world \<Rightarrow> string list" where
  "new_lines w w' = drop (length (stdout w)) (stdout w')"

text \<open>The lines that the module prints before it reads the name of the config file.\<close>

definition banner :: "string list" where
  "banner = [''** Welcome to PhotoApp **'', '''', ''What config file to use for this session?'',
             ''Press ENTER to use default (photoapp-config.ini),'',
             ''otherwise enter name of config file>'']"

text \<open>
  The invariant of the data model, on the model of the collaborators: the key of every
  asset row is the key of a blob in the bucket.
\<close>

definition no_dangling :: "outside \<Rightarrow> bool" where
  "no_dangling e =
     list_all (\<lambda>a. snd (snd (snd a)) \<in> set (map fst (bucket_objects e))) (assets_table e)"

text \<open>
  A handler run from an outside state that satisfies \<open>P\<close> leaves one that satisfies
  \<open>Q\<close> when it returns, and \<open>E\<close> when it raises.
\<close>

definition triple ::
  "('s \<Rightarrow> bool) \<Rightarrow> ('s, 'a) io \<Rightarrow> ('a \<Rightarrow> 's \<Rightarrow> bool) \<Rightarrow> ('s \<Rightarrow> bool) \<Rightarrow> bool" where
  "triple P m Q E =
     (\<forall>w. P (ext w) \<longrightarrow>
        (case m w of (Inl e, w') \<Rightarrow> E (ext w') | (Inr x, w') \<Rightarrow> Q x (ext w')))"

text \<open>A handler that reads lines from the console and never puts one back.\<close>

definition reads_on :: "('s, 'a) io \<Rightarrow> bool" where
  "reads_on m = (\<forall>w. length (stdin (snd (m w))) \<le> length (stdin w))"

text \<open>A handler that only adds lines to those printed so far.\<close>

definition prints_on :: "('s, 'a) io \<Rightarrow> bool" where
  "prints_on m = (\<forall>w. prefix (stdout w) (stdout (snd (m w))))"

text \<open>The world in which a turn of the loop ends.\<close>

fun world_of :: "'e loop_state \<Rightarrow> 'e world" where
  "world_of (AWAITING_COMMAND w) = w"
| "world_of (TERMINATED r w) = w"

text \<open>The four lines that the users command prints for one user.\<close>

definition user_block :: "int \<times> string \<times> string \<times> string \<times> string \<Rightarrow> string list" where
  "user_block u =
     (case u of (userid, email, lastname, firstname, bucketfolder) \<Rightarrow>
        [''User Id: '' @ str_int userid,
         ''  Email: '' @ email,
         ''  Name: '' @ lastname @ '' , '' @ firstname,
         ''  Folder: '' @ bucketfolder])"

section \<open>Properties\<close>

subsection \<open>Running a handler step by step\<close>

text \<open>The model of \<^verbatim>\<open>int\<close> and of the suffix on the strings of the sample runs.\<close>

lemma model_int_values [simp]:
  "model_int ''4'' = Some 4"
  "model_int ''-1'' = Some (- 1)"
  "model_int ''8'' = Some 8"
  "model_int ''0'' = Some 0"
  "model_int ''6'' = Some 6"
  "model_int ''quit'' = None"
  "model_int ''3306'' = Some 3306"
  "model_int ''80001'' = Some 80001"
  "model_int ''99999999'' = Some 99999999"
  "model_int ''1001'' = Some 1001"
  by (simp_all add: model_int_def signed_value_def is_space_def is_digit_def)

lemma model_int_forms:
  "model_int ''+5'' = Some 5"
  "model_int '' 7 '' = Some 7"
  "model_int ''1_0'' = Some 10"
  "model_int ''1__0'' = None"
  "model_int ''1.5'' = None"
  "model_int [] = None"
  by (simp_all add: model_int_def signed_value_def is_space_def is_digit_def)

lemma model_suffix_values [simp]:
  "model_suffix ''photo.jpg'' = ''.jpg''"
  "model_suffix ''dir.d/'' = ''.d''"
  "model_suffix ''.bashrc'' = []"
  by (simp_all add: model_suffix_def path_name_def)

lemma new_calls_append [simp]: "calls w' = calls w @ cs \<Longrightarrow> new_calls w w' = cs"
  by (simp add: new_calls_def)

lemma bind_print [simp]:
  "bind_io (py_print args) f w = f () (w\<lparr>stdout := stdout w @ [join_sp args]\<rparr>)"
  by (simp add: bind_io_def py_print_def)

lemma bind_input_Cons: "stdin w = l # ls \<Longrightarrow> bind_io py_input f w = f l (w\<lparr>stdin := ls\<rparr>)"
  by (simp add: bind_io_def py_input_def)

lemma bind_input_Nil: "stdin w = [] \<Longrightarrow> bind_io py_input f w = (Inl EOFError, w)"
  by (simp add: bind_io_def py_input_def)

lemma bind_ret [simp]: "bind_io (ret x) f w = f x w"
  by (simp add: bind_io_def ret_def)

lemma bind_raise [simp]: "bind_io (raise e) f w = (Inl e, w)"
  by (simp add: bind_io_def raise_def)

lemma bind_lift_Inr [simp]: "bind_io (lift (Inr x)) f w = f x w"
  by (simp add: bind_io_def lift_def)

lemma bind_lift_Inl [simp]: "bind_io (lift (Inl e)) f w = (Inl e, w)"
  by (simp add: bind_io_def lift_def)

lemma bind_logged:
  "bind_io (logged g ev) f w =
     (case g (ext w) of
        (Inl e, e') \<Rightarrow> (Inl e, w\<lparr>calls := calls w @ [ev (Inl e)], ext := e'\<rparr>)
      | (Inr x, e') \<Rightarrow> f x (w\<lparr>calls := calls w @ [ev (Inr x)], ext := e'\<rparr>))"
  by (simp add: bind_io_def logged_def split: prod.splits sum.splits)

lemma bind_path_exists:
  "bind_io (os_path_exists env p) f w =
     f (env_path_exists env (ext w) p)
       (w\<lparr>calls := calls w @ [PathExists p (env_path_exists env (ext w) p)]\<rparr>)"
  by (simp add: bind_io_def os_path_exists_def Let_def)

lemma bind_is_file:
  "bind_io (path_is_file env p) f w =
     f (env_is_file env (ext w) p)
       (w\<lparr>calls := calls w @ [IsFile p (env_is_file env (ext w) p)]\<rparr>)"
  by (simp add: bind_io_def path_is_file_def Let_def)

lemma bind_uuid4:
  "bind_io (uuid_uuid4 env) f w =
     (case env_uuid4 env (ext w) of
        (u, e') \<Rightarrow> f u (w\<lparr>calls := calls w @ [Uuid4 u], ext := e'\<rparr>))"
  by (simp add: bind_io_def uuid_uuid4_def split: prod.splits)

lemma prompt_Cons:
  "stdin w = s # rest \<Longrightarrow>
   prompt env w = (case env_int env s of None \<Rightarrow> Inl ValueError | Some n \<Rightarrow> Inr n,
                   w\<lparr>stdin := rest, stdout := stdout w @ menu\<rparr>)"
  by (simp add: prompt_def bind_input_Cons py_int_def menu_def raise_def ret_def
           split: option.splits)

lemma prompt_Nil:
  "stdin w = [] \<Longrightarrow> prompt env w = (Inl EOFError, w\<lparr>stdout := stdout w @ menu\<rparr>)"
  by (simp add: prompt_def bind_input_Nil menu_def)

subsection \<open>Upload of a file that does not exist\<close>

text \<open>
  C3: when the local path that was entered does not exist, the upload command prints the
  file-missing message and returns. It has read one line only (the user identifier is
  neither asked for nor looked up), its only call is the check of the path, and so it
  made no call to the object store and none to the database.
\<close>

theorem upload_missing_file:
  assumes "stdin w = local_fname # rest"
      and "\<not> env_path_exists env (ext w) local_fname"
  shows "upload env w =
           (Inr (),
            w\<lparr>stdin := rest,
              stdout := stdout w @
                [''Enter local filename>'',
                 ''Local file '' @ quote @ '' '' @ local_fname @ '' '' @ quote @ '' does not exist...''],
              calls := calls w @ [PathExists local_fname False]\<rparr>)
         \<and> filter (\<lambda>c. store_call c \<or> db_call c) (new_calls w (snd (upload env w))) = []"
  using assms by (simp add: upload_def bind_input_Cons bind_path_exists py_print_def)

theorem upload_missing_file_witness:
  "upload (model_env example_gen) (example_world [''/no/such/file.jpg'', ''80001'']) =
     (Inr (),
      \<lparr> stdin = [''80001''],
        stdout = [''Enter local filename>'',
                  ''Local file '' @ quote @ '' /no/such/file.jpg '' @ quote @ '' does not exist...''],
        calls = [PathExists ''/no/such/file.jpg'' False],
        ext = example_outside \<rparr>)"
  using upload_missing_file
          [of "example_world [''/no/such/file.jpg'', ''80001'']" "''/no/such/file.jpg''"
              "[''80001'']" "model_env example_gen"]
  by (simp add: example_world_def example_outside_def model_env_def)

subsection \<open>Download of an asset that is not in the table\<close>

text \<open>
  C4: when the lookup of the entered asset identifier finds no row (the result is
  \<^verbatim>\<open>None\<close> or empty), the download command prints "No such asset..." and returns. Its
  only call is that lookup: it does not call the object store, so nothing is downloaded
  and no file is written, and the outside state is the one the lookup left.
\<close>

theorem download_no_such_asset:
  assumes "stdin w = asset_id # rest"
      and "env_retrieve_one_row env (ext w)
             ''SELECT bucketkey, assetname FROM assets WHERE assetid = %s'' [asset_id] =
           (Inr file_info, e')"
      and "\<not> truthy_row file_info"
  shows "download env display w =
           (Inr (),
            w\<lparr>stdin := rest,
              stdout := stdout w @ [''Enter asset id>'', ''No such asset...''],
              calls := calls w @
                [RetrieveOneRow ''SELECT bucketkey, assetname FROM assets WHERE assetid = %s''
                   [asset_id] (Inr file_info)],
              ext := e'\<rparr>)
         \<and> filter store_call (new_calls w (snd (download env display w))) = []"
  using assms
  by (simp add: download_def bind_input_Cons datatier_retrieve_one_row_def bind_logged py_print_def)

theorem download_no_such_asset_witness:
  "download (model_env example_gen) False (example_world [''99999999'']) =
     (Inr (),
      \<lparr> stdin = [],
        stdout = [''Enter asset id>'', ''No such asset...''],
        calls = [RetrieveOneRow ''SELECT bucketkey, assetname FROM assets WHERE assetid = %s''
                   [''99999999''] (Inr (Some []))],
        ext = example_outside \<rparr>)"
  using download_no_such_asset
          [of "example_world [''99999999'']" "''99999999''" "[]" "model_env example_gen"
              "Some []" example_outside False]
  by (simp add: example_world_def example_outside_def model_env_def model_retrieve_one_row_def)

lemma new_lines_append [simp]: "stdout w' = stdout w @ ls \<Longrightarrow> new_lines w w' = ls"
  by (simp add: new_lines_def)

subsection \<open>The two failures of a download print the same lines\<close>

text \<open>
  C5: in the download command, a failed download of the blob when the row exists (the
  helper returns \<^verbatim>\<open>None\<close> or an empty name) prints exactly what a missing row prints:
  the prompt and then "No such asset...". Both runs return normally, and their output
  does not tell the two causes apart.
\<close>

theorem download_failures_same_message:
  assumes "stdin w1 = asset_id1 # rest1"
      and "env_retrieve_one_row env1 (ext w1)
             ''SELECT bucketkey, assetname FROM assets WHERE assetid = %s'' [asset_id1] =
           (Inr file_info, e1)"
      and "\<not> truthy_row file_info"
      and "stdin w2 = asset_id2 # rest2"
      and "env_retrieve_one_row env2 (ext w2)
             ''SELECT bucketkey, assetname FROM assets WHERE assetid = %s'' [asset_id2] =
           (Inr (Some [key, orginial_fname]), e2)"
      and "env_download_file env2 e2 key orginial_fname = (Inr downloaded_file, e3)"
      and "downloaded_file = None \<or> downloaded_file = Some []"
  shows "fst (download env1 display1 w1) = Inr ()
         \<and> fst (download env2 display2 w2) = Inr ()
         \<and> new_lines w1 (snd (download env1 display1 w1)) =
             [''Enter asset id>'', ''No such asset...'']
         \<and> new_lines w2 (snd (download env2 display2 w2)) =
             new_lines w1 (snd (download env1 display1 w1))"
  using assms
  by (auto simp add: download_def bind_input_Cons datatier_retrieve_one_row_def
        awsutil_download_file_def bind_logged py_print_def)

theorem download_failures_same_message_witness:
  "new_lines (example_world [''99999999''])
     (snd (download (model_env example_gen) False (example_world [''99999999''])))
     = [''Enter asset id>'', ''No such asset...'']
   \<and> new_lines (example_world [''1001''] \<lparr>ext := example_outside\<lparr>bucket_objects := []\<rparr>\<rparr>)
       (snd (download (model_env example_gen) True
          (example_world [''1001''] \<lparr>ext := example_outside\<lparr>bucket_objects := []\<rparr>\<rparr>)))
     = [''Enter asset id>'', ''No such asset...'']"
  using download_failures_same_message
          [where ?w1.0 = "example_world [''99999999'']" and ?asset_id1.0 = "''99999999''"
             and ?rest1.0 = "[]" and ?env1.0 = "model_env example_gen"
             and file_info = "Some []" and ?e1.0 = example_outside
             and ?w2.0 = "example_world [''1001''] \<lparr>ext := example_outside\<lparr>bucket_objects := []\<rparr>\<rparr>"
             and ?asset_id2.0 = "''1001''" and ?rest2.0 = "[]"
             and ?env2.0 = "model_env example_gen"
             and key = "SqlStr ''16fd2706-8baf-433b-82eb-8c7fada847da.jpg''"
             and orginial_fname = "SqlStr ''cat.jpg''"
             and ?e2.0 = "example_outside\<lparr>bucket_objects := []\<rparr>"
             and downloaded_file = None
             and ?e3.0 = "example_outside\<lparr>bucket_objects := []\<rparr>"
             and ?display1.0 = False and ?display2.0 = True]
  by (simp add: example_world_def example_outside_def model_env_def model_retrieve_one_row_def
        model_download_file_def)

subsection \<open>The loop after a command\<close>

text \<open>Every turn of the loop that goes on has read a line, so the loop ends.\<close>

lemma reads_onD: "reads_on m \<Longrightarrow> length (stdin (snd (m w))) \<le> length (stdin w)"
  by (simp add: reads_on_def)

lemma reads_on_ret: "reads_on (ret x)"
  by (simp add: reads_on_def ret_def)

lemma reads_on_raise: "reads_on (raise e)"
  by (simp add: reads_on_def raise_def)

lemma reads_on_lift: "reads_on (lift r)"
  by (simp add: reads_on_def lift_def)

lemma reads_on_print: "reads_on (py_print args)"
  by (simp add: reads_on_def py_print_def)

lemma reads_on_input: "reads_on py_input"
  by (simp add: reads_on_def py_input_def split: list.splits)

lemma reads_on_logged: "reads_on (logged g ev)"
  by (simp add: reads_on_def logged_def split: prod.splits)

lemma reads_on_path_exists: "reads_on (os_path_exists env p)"
  by (simp add: reads_on_def os_path_exists_def Let_def)

lemma reads_on_uuid4: "reads_on (uuid_uuid4 env)"
  by (simp add: reads_on_def uuid_uuid4_def split: prod.splits)

lemma reads_on_bind:
  assumes "reads_on m" and "\<And>x. reads_on (f x)"
  shows "reads_on (bind_io m f)"
  unfolding reads_on_def
proof
  fix w
  show "length (stdin (snd (bind_io m f w))) \<le> length (stdin w)"
  proof (cases "m w")
    case (Pair r w1)
    have a: "length (stdin w1) \<le> length (stdin w)"
      using assms(1) Pair by (auto simp add: reads_on_def dest: spec [of _ w])
    show ?thesis
    proof (cases r)
      case (Inl e)
      with Pair a show ?thesis by (simp add: bind_io_def)
    next
      case (Inr x)
      have "length (stdin (snd (f x w1))) \<le> length (stdin w1)"
        using assms(2) [of x] by (simp add: reads_on_def)
      with Pair Inr a show ?thesis by (simp add: bind_io_def)
    qed
  qed
qed

lemma reads_on_if:
  assumes "c \<Longrightarrow> reads_on a" and "\<not> c \<Longrightarrow> reads_on b"
  shows "reads_on (if c then a else b)"
  using assms by simp

lemma reads_on_for_each:
  assumes "\<And>x. reads_on (body x)"
  shows "reads_on (for_each body xs)"
  by (induction xs) (simp_all add: reads_on_ret reads_on_bind assms)

lemmas reads_on_rules =
  reads_on_bind reads_on_ret reads_on_raise reads_on_lift reads_on_print reads_on_input
  reads_on_path_exists reads_on_uuid4 reads_on_if reads_on_for_each

lemma reads_on_print_count: "reads_on (print_count label cnt)"
  by (auto intro!: reads_on_rules simp add: print_count_def split: option.splits list.splits)

lemma reads_on_stats: "reads_on (stats env bucketname endpoint)"
  unfolding stats_def bucket_objects_all_def datatier_retrieve_one_row_def
  by (intro reads_on_rules reads_on_logged reads_on_print_count)

lemma reads_on_print_user: "reads_on (print_user user)"
  unfolding print_user_def by (intro reads_on_rules)

lemma reads_on_users: "reads_on (users env)"
  unfolding users_def datatier_retrieve_all_rows_def
  by (intro reads_on_rules reads_on_logged reads_on_print_user)

lemma reads_on_print_asset: "reads_on (print_asset asset)"
  by (auto intro!: reads_on_rules simp add: print_asset_def split: list.splits)

lemma reads_on_assets: "reads_on (assets env)"
  unfolding assets_def datatier_retrieve_all_rows_def
  by (intro reads_on_rules reads_on_logged reads_on_print_asset)

lemma reads_on_download: "reads_on (download env display)"
  unfolding download_def datatier_retrieve_one_row_def awsutil_download_file_def
    display_image_def
  by (auto intro!: reads_on_rules reads_on_logged split: option.splits list.splits)

lemma reads_on_upload: "reads_on (upload env)"
  unfolding upload_def datatier_retrieve_one_row_def awsutil_upload_file_def
    datatier_perform_action_def
  by (auto intro!: reads_on_rules reads_on_logged split: option.splits list.splits)

lemma reads_on_add_user: "reads_on (add_user env)"
  unfolding add_user_def datatier_retrieve_one_row_def datatier_perform_action_def
  by (auto intro!: reads_on_rules reads_on_logged split: option.splits list.splits)

lemma reads_on_dispatch: "reads_on (dispatch env bucketname endpoint cmd)"
  unfolding dispatch_def
  by (intro reads_on_if reads_on_stats reads_on_users reads_on_assets reads_on_download
        reads_on_upload reads_on_add_user reads_on_print)

lemma loop_step_consumes:
  assumes "loop_step env bucketname endpoint w = AWAITING_COMMAND w'"
  shows "length (stdin w') < length (stdin w)"
proof (cases "stdin w")
  case Nil
  with assms show ?thesis by (simp add: loop_step_def prompt_Nil)
next
  case (Cons s rest)
  let ?w1 = "w\<lparr>stdin := rest, stdout := stdout w @ menu\<rparr>"
  from assms Cons obtain cmd u where
    d: "dispatch env bucketname endpoint cmd ?w1 = (Inr u, w')"
    by (auto simp add: loop_step_def prompt_Cons split: option.splits if_splits prod.splits sum.splits)
  have "length (stdin (snd (dispatch env bucketname endpoint cmd ?w1))) \<le> length (stdin ?w1)"
    by (rule reads_onD [OF reads_on_dispatch])
  with d Cons show ?thesis by simp
qed

lemma main_loop_returns:
  "length (stdin w) < n \<Longrightarrow> \<exists>r w'. main_loop env bucketname endpoint n w = Some (r, w')"
proof (induction n arbitrary: w)
  case 0
  then show ?case by simp
next
  case (Suc n)
  show ?case
  proof (cases "loop_step env bucketname endpoint w")
    case (AWAITING_COMMAND w1)
    from loop_step_consumes [OF this] Suc.prems have "length (stdin w1) < n" by simp
    from Suc.IH [OF this] AWAITING_COMMAND show ?thesis by simp
  next
    case (TERMINATED r w1)
    then show ?thesis by (cases r) simp_all
  qed
qed

text \<open>Every handler only adds to the lines printed, and every turn prints the menu first.\<close>

lemma prints_onD: "prints_on m \<Longrightarrow> prefix (stdout w) (stdout (snd (m w)))"
  by (simp add: prints_on_def)

lemma prints_on_ret: "prints_on (ret x)"
  by (simp add: prints_on_def ret_def)

lemma prints_on_raise: "prints_on (raise e)"
  by (simp add: prints_on_def raise_def)

lemma prints_on_lift: "prints_on (lift r)"
  by (simp add: prints_on_def lift_def)

lemma prints_on_print: "prints_on (py_print args)"
  by (simp add: prints_on_def py_print_def)

lemma prints_on_input: "prints_on py_input"
  by (simp add: prints_on_def py_input_def split: list.splits)

lemma prints_on_logged: "prints_on (logged g ev)"
  by (simp add: prints_on_def logged_def split: prod.splits)

lemma prints_on_path_exists: "prints_on (os_path_exists env p)"
  by (simp add: prints_on_def os_path_exists_def Let_def)

lemma prints_on_uuid4: "prints_on (uuid_uuid4 env)"
  by (simp add: prints_on_def uuid_uuid4_def split: prod.splits)

lemma prints_on_bind:
  assumes "prints_on m" and "\<And>x. prints_on (f x)"
  shows "prints_on (bind_io m f)"
  unfolding prints_on_def
proof
  fix w
  show "prefix (stdout w) (stdout (snd (bind_io m f w)))"
  proof (cases "m w")
    case (Pair r w1)
    have a: "prefix (stdout w) (stdout w1)"
      using prints_onD [OF assms(1), of w] Pair by simp
    show ?thesis
    proof (cases r)
      case (Inl e)
      with Pair a show ?thesis by (simp add: bind_io_def)
    next
      case (Inr x)
      have "prefix (stdout w1) (stdout (snd (f x w1)))"
        by (rule prints_onD [OF assms(2)])
      with a have "prefix (stdout w) (stdout (snd (f x w1)))"
        by (rule prefix_order.trans)
      with Pair Inr show ?thesis by (simp add: bind_io_def)
    qed
  qed
qed

lemma prints_on_if:
  assumes "c \<Longrightarrow> prints_on a" and "\<not> c \<Longrightarrow> prints_on b"
  shows "prints_on (if c then a else b)"
  using assms by simp

lemma prints_on_for_each:
  assumes "\<And>x. prints_on (body x)"
  shows "prints_on (for_each body xs)"
  by (induction xs) (simp_all add: prints_on_ret prints_on_bind assms)

lemmas prints_on_rules =
  prints_on_bind prints_on_ret prints_on_raise prints_on_lift prints_on_print prints_on_input
  prints_on_path_exists prints_on_uuid4 prints_on_if prints_on_for_each

lemma prints_on_print_count: "prints_on (print_count label cnt)"
  by (auto intro!: prints_on_rules simp add: print_count_def split: option.splits list.splits)

lemma prints_on_stats: "prints_on (stats env bucketname endpoint)"
  unfolding stats_def bucket_objects_all_def datatier_retrieve_one_row_def
  by (intro prints_on_rules prints_on_logged prints_on_print_count)

lemma prints_on_print_user: "prints_on (print_user user)"
  unfolding print_user_def by (intro prints_on_rules)

lemma prints_on_users: "prints_on (users env)"
  unfolding users_def datatier_retrieve_all_rows_def
  by (intro prints_on_rules prints_on_logged prints_on_print_user)

lemma prints_on_print_asset: "prints_on (print_asset asset)"
  by (auto intro!: prints_on_rules simp add: print_asset_def split: list.splits)

lemma prints_on_assets: "prints_on (assets env)"
  unfolding assets_def datatier_retrieve_all_rows_def
  by (intro prints_on_rules prints_on_logged prints_on_print_asset)

lemma prints_on_download: "prints_on (download env display)"
  unfolding download_def datatier_retrieve_one_row_def awsutil_download_file_def
    display_image_def
  by (auto intro!: prints_on_rules prints_on_logged split: option.splits list.splits)

lemma prints_on_upload: "prints_on (upload env)"
  unfolding upload_def datatier_retrieve_one_row_def awsutil_upload_file_def
    datatier_perform_action_def
  by (auto intro!: prints_on_rules prints_on_logged split: option.splits list.splits)

lemma prints_on_add_user: "prints_on (add_user env)"
  unfolding add_user_def datatier_retrieve_one_row_def datatier_perform_action_def
  by (auto intro!: prints_on_rules prints_on_logged split: option.splits list.splits)

lemma prints_on_dispatch: "prints_on (dispatch env bucketname endpoint cmd)"
  unfolding dispatch_def
  by (intro prints_on_if prints_on_stats prints_on_users prints_on_assets prints_on_download
        prints_on_upload prints_on_add_user prints_on_print)

lemma loop_step_prints_menu:
  "prefix (stdout w @ menu) (stdout (world_of (loop_step env bucketname endpoint w)))"
proof (cases "stdin w")
  case Nil
  then show ?thesis by (simp add: loop_step_def prompt_Nil)
next
  case (Cons s rest)
  let ?w1 = "w\<lparr>stdin := rest, stdout := stdout w @ menu\<rparr>"
  show ?thesis
  proof (cases "env_int env s")
    case None
    with Cons show ?thesis by (simp add: loop_step_def prompt_Cons)
  next
    case (Some cmd)
    have p: "prefix (stdout ?w1) (stdout (snd (dispatch env bucketname endpoint cmd ?w1)))"
      by (rule prints_onD [OF prints_on_dispatch])
    show ?thesis
    proof (cases "dispatch env bucketname endpoint cmd ?w1")
      case (Pair r w2)
      with p Cons Some show ?thesis
        by (cases r) (simp_all add: loop_step_def prompt_Cons)
    qed
  qed
qed

lemma loop_step_reads_line:
  assumes "stdin w = s # rest"
  shows "length (stdin (world_of (loop_step env bucketname endpoint w))) \<le> length rest"
proof -
  let ?w1 = "w\<lparr>stdin := rest, stdout := stdout w @ menu\<rparr>"
  show ?thesis
  proof (cases "env_int env s")
    case None
    with assms show ?thesis by (simp add: loop_step_def prompt_Cons)
  next
    case (Some cmd)
    have p: "length (stdin (snd (dispatch env bucketname endpoint cmd ?w1))) \<le> length (stdin ?w1)"
      by (rule reads_onD [OF reads_on_dispatch])
    show ?thesis
    proof (cases "dispatch env bucketname endpoint cmd ?w1")
      case (Pair r w2)
      with p assms Some show ?thesis
        by (cases r) (simp_all add: loop_step_def prompt_Cons)
    qed
  qed
qed

lemma main_loop_prints_menu:
  "main_loop env bucketname endpoint n w = Some (r, w_end) \<Longrightarrow> prefix (stdout w @ menu) (stdout w_end)"
proof (induction n arbitrary: w)
  case 0
  then show ?case by simp
next
  case (Suc n)
  have first: "prefix (stdout w @ menu) (stdout (world_of (loop_step env bucketname endpoint w)))"
    by (rule loop_step_prints_menu)
  show ?case
  proof (cases "loop_step env bucketname endpoint w")
    case (TERMINATED e w1)
    with Suc.prems first show ?thesis by (cases e) auto
  next
    case (AWAITING_COMMAND w1)
    with Suc.prems have "main_loop env bucketname endpoint n w1 = Some (r, w_end)" by simp
    from Suc.IH [OF this] have "prefix (stdout w1 @ menu) (stdout w_end)" .
    then have "prefix (stdout w1) (stdout w_end)" by (rule append_prefixD)
    with first AWAITING_COMMAND show ?thesis
      using prefix_order.trans by fastforce
  qed
qed

text \<open>
  C6: for every command code from 1 to 7 entered at the prompt, when the handler that
  the code selects (stats, users, assets, download, download and display, upload, add
  user) returns, whatever it did and printed, the turn of the loop ends in the state
  AWAITING_COMMAND with the world the handler left, which holds the menu and then the
  handler's lines. The loop does not terminate there: its next turn prints the menu
  again and reads the next line if there is one, and, once the bound on the turns
  exceeds the lines of input that are left, the whole loop returns with an output in
  which the menu follows the handler's lines.
\<close>

theorem loop_returns_to_awaiting:
  assumes "stdin w = s # rest"
      and "env_int env s = Some cmd"
      and "w1 = w\<lparr>stdin := rest, stdout := stdout w @ menu\<rparr>"
      and "cmd = 1 \<and> stats env bucketname endpoint w1 = (Inr u, w')
           \<or> cmd = 2 \<and> users env w1 = (Inr u, w')
           \<or> cmd = 3 \<and> assets env w1 = (Inr u, w')
           \<or> cmd = 4 \<and> download env False w1 = (Inr u, w')
           \<or> cmd = 5 \<and> download env True w1 = (Inr u, w')
           \<or> cmd = 6 \<and> upload env w1 = (Inr u, w')
           \<or> cmd = 7 \<and> add_user env w1 = (Inr u, w')"
  shows "loop_step env bucketname endpoint w = AWAITING_COMMAND w'
         \<and> prefix (stdout w @ menu) (stdout w')
         \<and> prefix (stdout w' @ menu) (stdout (world_of (loop_step env bucketname endpoint w')))
         \<and> (stdin w' \<noteq> [] \<longrightarrow>
              length (stdin (world_of (loop_step env bucketname endpoint w'))) < length (stdin w'))
         \<and> main_loop env bucketname endpoint (Suc n) w = main_loop env bucketname endpoint n w'
         \<and> (length (stdin w') < n \<longrightarrow>
              (\<exists>r w_end. main_loop env bucketname endpoint (Suc n) w = Some (r, w_end)
                 \<and> prefix (stdout w' @ menu) (stdout w_end)))"
proof -
  have d: "dispatch env bucketname endpoint cmd w1 = (Inr u, w')"
    using assms(4) by (auto simp add: dispatch_def)
  have step: "loop_step env bucketname endpoint w = AWAITING_COMMAND w'"
    using assms(1,2,4) d unfolding assms(3)
    by (auto simp add: loop_step_def prompt_Cons)
  have "prefix (stdout w1) (stdout (snd (dispatch env bucketname endpoint cmd w1)))"
    by (rule prints_onD [OF prints_on_dispatch])
  with d have out: "prefix (stdout w @ menu) (stdout w')"
    by (simp add: assms(3))
  have nxt: "prefix (stdout w' @ menu) (stdout (world_of (loop_step env bucketname endpoint w')))"
    by (rule loop_step_prints_menu)
  have rd: "stdin w' \<noteq> [] \<longrightarrow>
              length (stdin (world_of (loop_step env bucketname endpoint w'))) < length (stdin w')"
  proof
    assume "stdin w' \<noteq> []"
    then obtain s' rest' where c: "stdin w' = s' # rest'" by (cases "stdin w'") auto
    from loop_step_reads_line [OF c, of env bucketname endpoint] c
    show "length (stdin (world_of (loop_step env bucketname endpoint w'))) < length (stdin w')"
      by simp
  qed
  have go: "main_loop env bucketname endpoint (Suc n) w = main_loop env bucketname endpoint n w'"
    using step by simp
  have fin: "length (stdin w') < n \<longrightarrow>
              (\<exists>r w_end. main_loop env bucketname endpoint (Suc n) w = Some (r, w_end)
                 \<and> prefix (stdout w' @ menu) (stdout w_end))"
  proof
    assume "length (stdin w') < n"
    from main_loop_returns [OF this, of env bucketname endpoint]
    obtain r w_end where e: "main_loop env bucketname endpoint n w' = Some (r, w_end)" by blast
    from main_loop_prints_menu [OF e] e go
    show "\<exists>r w_end. main_loop env bucketname endpoint (Suc n) w = Some (r, w_end)
            \<and> prefix (stdout w' @ menu) (stdout w_end)"
      by simp
  qed
  from step out nxt rd go fin show ?thesis by blast
qed

theorem loop_returns_to_awaiting_witness:
  "loop_step (model_env example_gen) ''photoapp-bucket'' ''mysql.example.com''
     (example_world [''4'', ''99999999'', ''6'', ''/no/such/file.jpg'', ''0'']) =
   AWAITING_COMMAND
     \<lparr> stdin = [''6'', ''/no/such/file.jpg'', ''0''],
       stdout = menu @ [''Enter asset id>'', ''No such asset...''],
       calls = [RetrieveOneRow ''SELECT bucketkey, assetname FROM assets WHERE assetid = %s''
                  [''99999999''] (Inr (Some []))],
       ext = example_outside \<rparr>
   \<and> main_loop (model_env example_gen) ''photoapp-bucket'' ''mysql.example.com''
       (Suc (Suc (Suc 0)))
       (example_world [''4'', ''99999999'', ''6'', ''/no/such/file.jpg'', ''0'']) =
     Some (Inr (),
       \<lparr> stdin = [],
         stdout = menu @ [''Enter asset id>'', ''No such asset...'']
           @ menu @ [''Enter local filename>'',
                     ''Local file '' @ quote @ '' /no/such/file.jpg '' @ quote @ '' does not exist...'']
           @ menu,
         calls = [RetrieveOneRow ''SELECT bucketkey, assetname FROM assets WHERE assetid = %s''
                    [''99999999''] (Inr (Some [])),
                  PathExists ''/no/such/file.jpg'' False],
         ext = example_outside \<rparr>)"
  using loop_returns_to_awaiting
          [where w = "example_world [''4'', ''99999999'', ''6'', ''/no/such/file.jpg'', ''0'']"
             and s = "''4''" and rest = "[''99999999'', ''6'', ''/no/such/file.jpg'', ''0'']"
             and env = "model_env example_gen" and cmd = 4
             and ?w1.0 = "\<lparr> stdin = [''99999999'', ''6'', ''/no/such/file.jpg'', ''0''],
                 stdout = menu, calls = [], ext = example_outside \<rparr>"
             and bucketname = "''photoapp-bucket''" and endpoint = "''mysql.example.com''"
             and u = "()" and n = "Suc (Suc 0)"
             and w' = "\<lparr> stdin = [''6'', ''/no/such/file.jpg'', ''0''],
                 stdout = menu @ [''Enter asset id>'', ''No such asset...''],
                 calls = [RetrieveOneRow ''SELECT bucketkey, assetname FROM assets WHERE assetid = %s''
                            [''99999999''] (Inr (Some []))],
                 ext = example_outside \<rparr>"]
  by (simp add: example_world_def example_outside_def model_env_def model_retrieve_one_row_def
        loop_step_def prompt_Cons
        dispatch_def download_def upload_def bind_input_Cons bind_path_exists
        datatier_retrieve_one_row_def bind_logged py_print_def)

text \<open>
  C7: for every command code that \<^verbatim>\<open>int\<close> accepts and that is below 0 or above 7, the
  turn of the loop prints the menu and the warning and does nothing else: no call is
  made, the outside state is unchanged, and the loop goes on with its next prompt. The
  next turn prints the menu again after the warning, and, once the bound on the turns
  exceeds the lines of input that are left, the whole loop returns with an output in
  which the menu follows the warning.
\<close>

theorem unknown_command_warns:
  assumes "stdin w = s # rest"
      and "env_int env s = Some cmd"
      and "cmd < 0 \<or> 7 < cmd"
  shows "loop_step env bucketname endpoint w =
           AWAITING_COMMAND
             (w\<lparr>stdin := rest,
                stdout := stdout w @ menu @ [''** Unknown command, try again...'']\<rparr>)
         \<and> main_loop env bucketname endpoint (Suc n) w =
             main_loop env bucketname endpoint n
               (w\<lparr>stdin := rest,
                  stdout := stdout w @ menu @ [''** Unknown command, try again...'']\<rparr>)
         \<and> prefix (stdout w @ menu @ [''** Unknown command, try again...''] @ menu)
             (stdout (world_of (loop_step env bucketname endpoint
                (w\<lparr>stdin := rest,
                   stdout := stdout w @ menu @ [''** Unknown command, try again...'']\<rparr>))))
         \<and> (length rest < n \<longrightarrow>
              (\<exists>r w_end. main_loop env bucketname endpoint (Suc n) w = Some (r, w_end)
                 \<and> prefix (stdout w @ menu @ [''** Unknown command, try again...''] @ menu)
                      (stdout w_end)))"
proof -
  let ?w2 = "w\<lparr>stdin := rest, stdout := stdout w @ menu @ [''** Unknown command, try again...'']\<rparr>"
  have step: "loop_step env bucketname endpoint w = AWAITING_COMMAND ?w2"
    using assms by (auto simp add: loop_step_def prompt_Cons dispatch_def py_print_def)
  then have go: "main_loop env bucketname endpoint (Suc n) w = main_loop env bucketname endpoint n ?w2"
    by simp
  have nxt: "prefix (stdout ?w2 @ menu) (stdout (world_of (loop_step env bucketname endpoint ?w2)))"
    by (rule loop_step_prints_menu)
  have fin: "length rest < n \<longrightarrow>
              (\<exists>r w_end. main_loop env bucketname endpoint (Suc n) w = Some (r, w_end)
                 \<and> prefix (stdout ?w2 @ menu) (stdout w_end))"
  proof
    assume "length rest < n"
    then have "length (stdin ?w2) < n" by simp
    from main_loop_returns [OF this, of env bucketname endpoint]
    obtain r w_end where e: "main_loop env bucketname endpoint n ?w2 = Some (r, w_end)" by blast
    from main_loop_prints_menu [OF e] e go
    show "\<exists>r w_end. main_loop env bucketname endpoint (Suc n) w = Some (r, w_end)
            \<and> prefix (stdout ?w2 @ menu) (stdout w_end)"
      by simp
  qed
  from step go nxt fin show ?thesis by simp
qed

theorem unknown_command_warns_witness:
  "loop_step (model_env example_gen) ''photoapp-bucket'' ''mysql.example.com''
     (example_world [''-1'', ''8'']) =
   AWAITING_COMMAND
     \<lparr> stdin = [''8''],
       stdout = menu @ [''** Unknown command, try again...''],
       calls = [],
       ext = example_outside \<rparr>
   \<and> loop_step (model_env example_gen) ''photoapp-bucket'' ''mysql.example.com''
     \<lparr> stdin = [''8''],
       stdout = menu @ [''** Unknown command, try again...''],
       calls = [],
       ext = example_outside \<rparr> =
   AWAITING_COMMAND
     \<lparr> stdin = [],
       stdout = menu @ [''** Unknown command, try again...''] @ menu @ [''** Unknown command, try again...''],
       calls = [],
       ext = example_outside \<rparr>
   \<and> main_loop (model_env example_gen) ''photoapp-bucket'' ''mysql.example.com''
       (Suc (Suc (Suc 0))) (example_world [''-1'', ''8'']) =
     Some (Inl EOFError,
       \<lparr> stdin = [],
         stdout = menu @ [''** Unknown command, try again...''] @ menu
           @ [''** Unknown command, try again...''] @ menu,
         calls = [],
         ext = example_outside \<rparr>)"
  using unknown_command_warns
          [where w = "example_world [''-1'', ''8'']" and s = "''-1''" and rest = "[''8'']"
             and env = "model_env example_gen" and cmd = "- 1"
             and bucketname = "''photoapp-bucket''" and endpoint = "''mysql.example.com''"
             and n = "Suc (Suc 0)"]
        unknown_command_warns
          [where w = "\<lparr> stdin = [''8''], stdout = menu @ [''** Unknown command, try again...''],
                 calls = [], ext = example_outside \<rparr>"
             and s = "''8''" and rest = "[]" and env = "model_env example_gen" and cmd = 8
             and bucketname = "''photoapp-bucket''" and endpoint = "''mysql.example.com''"
             and n = "Suc 0"]
  by (simp add: example_world_def model_env_def loop_step_def prompt_Cons prompt_Nil
        dispatch_def py_print_def)

subsection \<open>How the loop ends\<close>

text \<open>
  A run in which the loop ends although the command entered is a number other than 0:
  after command 4 the input ends, \<^verbatim>\<open>input()\<close> raises EOFError inside the download
  handler, and the exception ends the process.
\<close>

theorem loop_terminates_on_handler_exception:
  "loop_step (model_env example_gen) ''photoapp-bucket'' ''mysql.example.com''
     (example_world [''4'']) =
   TERMINATED (Some EOFError)
     \<lparr> stdin = [], stdout = menu @ [''Enter asset id>''], calls = [], ext = example_outside \<rparr>
   \<and> env_int (model_env example_gen) ''4'' = Some 4"
  by (simp add: loop_step_def prompt_Cons example_world_def model_env_def dispatch_def
        download_def bind_input_Nil)

text \<open>
  C8, amended: for every input at the command prompt that \<^verbatim>\<open>int\<close> rejects, the turn
  of the loop ends in TERMINATED with the ValueError, without a new prompt, and the
  program ends. A turn of the loop ends in TERMINATED exactly when the input has ended
  at the prompt, or the line entered is rejected by \<^verbatim>\<open>int\<close>, or it is the exit
  command code 0, or the dispatched handler raises an exception.
\<close>

theorem loop_termination_cases:
  "(stdin w = s # rest \<and> env_int env s = None \<longrightarrow>
      loop_step env bucketname endpoint w =
        TERMINATED (Some ValueError) (w\<lparr>stdin := rest, stdout := stdout w @ menu\<rparr>)
      \<and> main_loop env bucketname endpoint (Suc n) w =
          Some (Inl ValueError, w\<lparr>stdin := rest, stdout := stdout w @ menu\<rparr>))
   \<and> ((\<exists>r w'. loop_step env bucketname endpoint w = TERMINATED r w') \<longleftrightarrow>
        (stdin w = []
         \<or> (\<exists>s rest. stdin w = s # rest
              \<and> (env_int env s = None
                 \<or> env_int env s = Some 0
                 \<or> (\<exists>cmd e w'. env_int env s = Some cmd
                       \<and> dispatch env bucketname endpoint cmd
                            (w\<lparr>stdin := rest, stdout := stdout w @ menu\<rparr>) = (Inl e, w'))))))"
proof (intro conjI impI)
  assume "stdin w = s # rest \<and> env_int env s = None"
  then show "loop_step env bucketname endpoint w =
        TERMINATED (Some ValueError) (w\<lparr>stdin := rest, stdout := stdout w @ menu\<rparr>)"
    by (simp add: loop_step_def prompt_Cons)
  then show "main_loop env bucketname endpoint (Suc n) w =
          Some (Inl ValueError, w\<lparr>stdin := rest, stdout := stdout w @ menu\<rparr>)"
    by simp
next
  show "(\<exists>r w'. loop_step env bucketname endpoint w = TERMINATED r w') \<longleftrightarrow>
        (stdin w = []
         \<or> (\<exists>s rest. stdin w = s # rest
              \<and> (env_int env s = None
                 \<or> env_int env s = Some 0
                 \<or> (\<exists>cmd e w'. env_int env s = Some cmd
                       \<and> dispatch env bucketname endpoint cmd
                            (w\<lparr>stdin := rest, stdout := stdout w @ menu\<rparr>) = (Inl e, w')))))"
  proof (cases "stdin w")
    case Nil
    then show ?thesis by (simp add: loop_step_def prompt_Nil)
  next
    case (Cons s rest)
    then show ?thesis
      by (auto simp add: loop_step_def prompt_Cons split: option.splits prod.splits sum.splits)
  qed
qed

theorem loop_termination_cases_witness:
  "loop_step (model_env example_gen) ''photoapp-bucket'' ''mysql.example.com''
     (example_world [''quit'', ''1'']) =
   TERMINATED (Some ValueError)
     \<lparr> stdin = [''1''], stdout = menu, calls = [], ext = example_outside \<rparr>
   \<and> main_loop (model_env example_gen) ''photoapp-bucket'' ''mysql.example.com'' (Suc 0)
       (example_world [''quit'', ''1'']) =
     Some (Inl ValueError,
           \<lparr> stdin = [''1''], stdout = menu, calls = [], ext = example_outside \<rparr>)"
  using loop_termination_cases
          [where w = "example_world [''quit'', ''1'']" and s = "''quit''" and rest = "[''1'']"
             and env = "model_env example_gen" and bucketname = "''photoapp-bucket''"
             and endpoint = "''mysql.example.com''" and n = 0]
  by (simp add: example_world_def model_env_def)

lemma bind_configur_read:
  "bind_io (configur_read env config_file) f w =
     (case env_config_read env (ext w) config_file of
        Inl e \<Rightarrow> (Inl e, w\<lparr>calls := calls w @ [ConfigRead config_file]\<rparr>)
      | Inr configur \<Rightarrow> f configur (w\<lparr>calls := calls w @ [ConfigRead config_file]\<rparr>))"
  by (simp add: bind_io_def configur_read_def split: sum.splits)

lemma startup_no_config:
  assumes "stdin w = s # rest"
      and "config_file = (if s = [] then ''photoapp-config.ini'' else s)"
      and "\<not> env_is_file env (ext w) config_file"
  shows "startup env w =
           (Inl (SystemExit 0),
            w\<lparr>stdin := rest,
              stdout := stdout w @ banner @
                [''**ERROR: config file '' @ quote @ '' '' @ config_file @ '' '' @ quote @ '' does not exist, exiting''],
              calls := calls w @ [IsFile config_file False]\<rparr>)"
  using assms by (cases "s = []") (simp_all add: startup_def bind_input_Cons bind_is_file banner_def Let_def raise_def)

lemma startup_no_connection:
  assumes "stdin w = s # rest"
      and "config_file = (if s = [] then ''photoapp-config.ini'' else s)"
      and "env_is_file env (ext w) config_file"
      and "env_setup_default_session env (ext w) config_file ''s3readwrite'' = (Inr (), ea)"
      and "env_config_read env ea config_file = Inr configur"
      and "configur ''s3'' ''bucket_name'' = Inr bucketname"
      and "env_s3_bucket env ea bucketname = (Inr (), eb)"
      and "configur ''rds'' ''endpoint'' = Inr endpoint"
      and "configur ''rds'' ''port_number'' = Inr port_number"
      and "env_int env port_number = Some portnum"
      and "configur ''rds'' ''user_name'' = Inr username"
      and "configur ''rds'' ''user_pwd'' = Inr pwd"
      and "configur ''rds'' ''db_name'' = Inr dbname"
      and "env_get_dbConn env eb endpoint portnum username pwd dbname = (Inr False, ec)"
  shows "startup env w =
           (Inl (SystemExit 0),
            w\<lparr>stdin := rest,
              stdout := stdout w @ banner @ [''**ERROR: unable to connect to database, exiting''],
              calls := calls w @
                [IsFile config_file True,
                 SetupDefaultSession config_file ''s3readwrite'' (Inr ()),
                 ConfigRead config_file,
                 S3Bucket bucketname (Inr ()),
                 GetDbConn endpoint portnum username pwd dbname (Inr False)],
              ext := ec\<rparr>)"
  using assms
  by (cases "s = []") (simp_all add: startup_def bind_input_Cons bind_is_file banner_def Let_def
        boto3_setup_default_session_def bind_logged bind_configur_read
        s3_Bucket_def py_int_def datatier_get_dbConn_def raise_def)

subsection \<open>Fatal start-up errors\<close>

text \<open>
  C10: when start-up fails fatally, the process prints an error message and exits with
  status 0. This holds when the config file that was named (or the default, on an empty
  line) is not a file, and when every step up to the connection succeeds and the
  connection to the database cannot be made (\<^verbatim>\<open>get_dbConn\<close> returns \<^verbatim>\<open>None\<close>).
\<close>

theorem startup_failure_exits_zero:
  assumes "stdin w = s # rest"
      and "config_file = (if s = [] then ''photoapp-config.ini'' else s)"
  shows "(\<not> env_is_file env (ext w) config_file \<longrightarrow>
            main env fuel w =
              Some (Inl (SystemExit 0),
                    w\<lparr>stdin := rest,
                      stdout := stdout w @ banner @
                        [''**ERROR: config file '' @ quote @ '' '' @ config_file @ '' '' @ quote
                           @ '' does not exist, exiting''],
                      calls := calls w @ [IsFile config_file False]\<rparr>)
            \<and> map_option (\<lambda>r. exit_status (fst r)) (main env fuel w) = Some 0)
       \<and> (env_is_file env (ext w) config_file
          \<and> env_setup_default_session env (ext w) config_file ''s3readwrite'' = (Inr (), ea)
          \<and> env_config_read env ea config_file = Inr configur
          \<and> configur ''s3'' ''bucket_name'' = Inr bucketname
          \<and> env_s3_bucket env ea bucketname = (Inr (), eb)
          \<and> configur ''rds'' ''endpoint'' = Inr endpoint
          \<and> configur ''rds'' ''port_number'' = Inr port_number
          \<and> env_int env port_number = Some portnum
          \<and> configur ''rds'' ''user_name'' = Inr username
          \<and> configur ''rds'' ''user_pwd'' = Inr pwd
          \<and> configur ''rds'' ''db_name'' = Inr dbname
          \<and> env_get_dbConn env eb endpoint portnum username pwd dbname = (Inr False, ec) \<longrightarrow>
            main env fuel w =
              Some (Inl (SystemExit 0),
                    w\<lparr>stdin := rest,
                      stdout := stdout w @ banner @
                        [''**ERROR: unable to connect to database, exiting''],
                      calls := calls w @
                        [IsFile config_file True,
                         SetupDefaultSession config_file ''s3readwrite'' (Inr ()),
                         ConfigRead config_file,
                         S3Bucket bucketname (Inr ()),
                         GetDbConn endpoint portnum username pwd dbname (Inr False)],
                      ext := ec\<rparr>)
            \<and> map_option (\<lambda>r. exit_status (fst r)) (main env fuel w) = Some 0)"
proof (intro conjI impI)
  assume a: "\<not> env_is_file env (ext w) config_file"
  show "main env fuel w =
          Some (Inl (SystemExit 0),
                w\<lparr>stdin := rest,
                  stdout := stdout w @ banner @
                    [''**ERROR: config file '' @ quote @ '' '' @ config_file @ '' '' @ quote
                       @ '' does not exist, exiting''],
                  calls := calls w @ [IsFile config_file False]\<rparr>)"
    by (simp add: main_def startup_no_config [OF assms a])
  then show "map_option (\<lambda>r. exit_status (fst r)) (main env fuel w) = Some 0"
    by simp
next
  assume b: "env_is_file env (ext w) config_file
          \<and> env_setup_default_session env (ext w) config_file ''s3readwrite'' = (Inr (), ea)
          \<and> env_config_read env ea config_file = Inr configur
          \<and> configur ''s3'' ''bucket_name'' = Inr bucketname
          \<and> env_s3_bucket env ea bucketname = (Inr (), eb)
          \<and> configur ''rds'' ''endpoint'' = Inr endpoint
          \<and> configur ''rds'' ''port_number'' = Inr port_number
          \<and> env_int env port_number = Some portnum
          \<and> configur ''rds'' ''user_name'' = Inr username
          \<and> configur ''rds'' ''user_pwd'' = Inr pwd
          \<and> configur ''rds'' ''db_name'' = Inr dbname
          \<and> env_get_dbConn env eb endpoint portnum username pwd dbname = (Inr False, ec)"
  have "startup env w =
           (Inl (SystemExit 0),
            w\<lparr>stdin := rest,
              stdout := stdout w @ banner @ [''**ERROR: unable to connect to database, exiting''],
              calls := calls w @
                [IsFile config_file True,
                 SetupDefaultSession config_file ''s3readwrite'' (Inr ()),
                 ConfigRead config_file,
                 S3Bucket bucketname (Inr ()),
                 GetDbConn endpoint portnum username pwd dbname (Inr False)],
              ext := ec\<rparr>)"
    using b
    by (simp add: startup_no_connection
          [OF assms, where ea = ea and configur = configur and bucketname = bucketname
             and eb = eb and endpoint = endpoint and port_number = port_number
             and portnum = portnum and username = username and pwd = pwd
             and dbname = dbname and ec = ec])
  then show "main env fuel w =
              Some (Inl (SystemExit 0),
                    w\<lparr>stdin := rest,
                      stdout := stdout w @ banner @
                        [''**ERROR: unable to connect to database, exiting''],
                      calls := calls w @
                        [IsFile config_file True,
                         SetupDefaultSession config_file ''s3readwrite'' (Inr ()),
                         ConfigRead config_file,
                         S3Bucket bucketname (Inr ()),
                         GetDbConn endpoint portnum username pwd dbname (Inr False)],
                      ext := ec\<rparr>)"
    by (simp add: main_def)
  then show "map_option (\<lambda>r. exit_status (fst r)) (main env fuel w) = Some 0"
    by simp
qed

theorem startup_failure_exits_zero_witness:
  "map_option (\<lambda>r. (exit_status (fst r), new_lines (example_world [''missing.ini'']) (snd r)))
     (main (model_env example_gen) 5 (example_world [''missing.ini''])) =
   Some (0, banner @ [''**ERROR: config file '' @ quote @ '' missing.ini '' @ quote @ '' does not exist, exiting''])
   \<and> map_option (\<lambda>r. (exit_status (fst r),
                       new_lines (example_world ['''']\<lparr>ext := example_outside\<lparr>db_reachable := False\<rparr>\<rparr>) (snd r)))
     (main (model_env example_gen) 5 (example_world ['''']\<lparr>ext := example_outside\<lparr>db_reachable := False\<rparr>\<rparr>)) =
   Some (0, banner @ [''**ERROR: unable to connect to database, exiting''])"
  using startup_failure_exits_zero
          [where w = "example_world [''missing.ini'']" and s = "''missing.ini''" and rest = "[]"
             and config_file = "''missing.ini''" and env = "model_env example_gen" and fuel = 5]
        startup_failure_exits_zero
          [where w = "example_world ['''']\<lparr>ext := example_outside\<lparr>db_reachable := False\<rparr>\<rparr>"
             and s = "''''" and rest = "[]" and config_file = "''photoapp-config.ini''"
             and env = "model_env example_gen" and fuel = 5
             and ea = "example_outside\<lparr>db_reachable := False\<rparr>"
             and configur =
               "\<lambda>section option.
                  if section \<notin> set (map (\<lambda>entry. fst (fst entry))
                       [((''s3'', ''bucket_name''), ''photoapp-bucket''),
                        ((''rds'', ''endpoint''), ''mysql.example.com''),
                        ((''rds'', ''port_number''), ''3306''),
                        ((''rds'', ''user_name''), ''photoapp-read-write''),
                        ((''rds'', ''user_pwd''), ''secret''),
                        ((''rds'', ''db_name''), ''photoapp'')])
                  then Inl (GatewayError ''NoSectionError'')
                  else case map_of [((''s3'', ''bucket_name''), ''photoapp-bucket''),
                               ((''rds'', ''endpoint''), ''mysql.example.com''),
                               ((''rds'', ''port_number''), ''3306''),
                               ((''rds'', ''user_name''), ''photoapp-read-write''),
                               ((''rds'', ''user_pwd''), ''secret''),
                               ((''rds'', ''db_name''), ''photoapp'')] (section, option) of
                         None \<Rightarrow> Inl (GatewayError ''NoOptionError'')
                       | Some v \<Rightarrow> Inr v"
             and bucketname = "''photoapp-bucket''"
             and eb = "example_outside\<lparr>db_reachable := False\<rparr>"
             and endpoint = "''mysql.example.com''" and port_number = "''3306''"
             and portnum = 3306 and username = "''photoapp-read-write''" and pwd = "''secret''"
             and dbname = "''photoapp''"
             and ec = "example_outside\<lparr>db_reachable := False\<rparr>"]
  by (simp add: example_world_def example_outside_def model_env_def model_config_read_def)

subsection \<open>The key of an uploaded blob\<close>

lemma example_gen_0: "example_gen 0 = ''7c9e6679-7425-40de-944b-e07fc1f91000''"
  by (simp add: example_gen_def str_nat.simps)

text \<open>
  C2 asks that the key of an uploaded blob begin with the folder identifier of the
  owning user, and the docstring of \<^verbatim>\<open>upload\<close> says the file goes "to the user's
  folder in S3". The handler builds the key from a fresh UUID and the extension of the
  file name alone, and never reads the user's folder. In the sample installation, the
  upload of photo.jpg for user 80001 succeeds, and the key that is uploaded and recorded
  does not begin with that user's folder.
\<close>

theorem upload_key_lacks_user_folder:
  "fst (upload (model_env example_gen) (example_world [''photo.jpg'', ''80001''])) = Inr ()
   \<and> filter store_call
        (calls (snd (upload (model_env example_gen) (example_world [''photo.jpg'', ''80001''])))) =
       [UploadFile ''photo.jpg'' ''7c9e6679-7425-40de-944b-e07fc1f91000.jpg''
          (Inr (Some ''7c9e6679-7425-40de-944b-e07fc1f91000.jpg''))]
   \<and> assets_table
        (ext (snd (upload (model_env example_gen) (example_world [''photo.jpg'', ''80001''])))) =
       [(1001, 80001, ''cat.jpg'', ''16fd2706-8baf-433b-82eb-8c7fada847da.jpg''),
        (1002, 80001, ''photo.jpg'', ''7c9e6679-7425-40de-944b-e07fc1f91000.jpg'')]
   \<and> users_table example_outside =
       [(80001, ''a@b.com'', ''Smith'', ''Jane'', ''3d6f0a1c-52c4-4a53-9c1e-0c5b9d5a7e11'')]
   \<and> \<not> prefix ''3d6f0a1c-52c4-4a53-9c1e-0c5b9d5a7e11''
              ''7c9e6679-7425-40de-944b-e07fc1f91000.jpg''"
  by (simp add: upload_def example_world_def example_outside_def model_env_def
        bind_input_Cons bind_path_exists bind_logged bind_uuid4
        datatier_retrieve_one_row_def datatier_perform_action_def awsutil_upload_file_def
        model_retrieve_one_row_def model_perform_action_def model_upload_file_def
        example_gen_0 next_id_def subscript_def py_print_def)

subsection \<open>A new user is listed first\<close>

lemma print_user_row:
  "print_user (user_row u) w = (Inr (), w\<lparr>stdout := stdout w @ user_block u\<rparr>)"
  by (cases u) (simp add: print_user_def subscript_def user_block_def py_print_def)

lemma for_each_print_user:
  "for_each print_user (map user_row us) w =
     (Inr (), w\<lparr>stdout := stdout w @ concat (map user_block us)\<rparr>)"
proof (induction us arbitrary: w)
  case Nil
  then show ?case by (simp add: ret_def)
next
  case (Cons u us)
  then show ?case by (simp add: bind_io_def print_user_row)
qed

lemma fold_max_ge: "(a::int) \<le> fold max xs a"
  by (induction xs arbitrary: a) (auto intro: order_trans [OF max.cobounded2])

lemma fold_max_mem: "x \<in> set xs \<Longrightarrow> (x::int) \<le> fold max xs a"
proof (induction xs arbitrary: a)
  case Nil
  then show ?case by simp
next
  case (Cons y ys)
  show ?case
  proof (cases "x = y")
    case True
    have "max y a \<le> fold max ys (max y a)" by (rule fold_max_ge)
    then show ?thesis using True by simp
  next
    case False
    then show ?thesis using Cons by simp
  qed
qed

lemma next_id_greater: "x \<in> set ids \<Longrightarrow> x < next_id ids"
  using fold_max_mem [of x ids 0] by (simp add: next_id_def)

lemma sort_key_snoc_least:
  assumes "\<forall>x\<in>set xs. f a < f x"
  shows "sort_key f (xs @ [a]) = a # sort_key f xs"
  using assms
proof (induction xs)
  case Nil
  then show ?case by simp
next
  case (Cons x xs)
  then have "\<not> f x \<le> f a" by (simp add: not_le)
  with Cons show ?case by (simp add: sort_key_def)
qed

lemma order_desc_snoc_greatest:
  assumes "\<forall>x\<in>set rows. ident x < ident a"
  shows "order_desc ident (rows @ [a]) = a # order_desc ident rows"
  using assms by (simp add: order_desc_def sort_key_snoc_least)

lemma add_user_model:
  assumes "stdin w = email # last_name # first_name # rest"
      and "db_reachable (ext w)"
      and "email \<notin> set (map (\<lambda>u. fst (snd u)) (users_table (ext w)))"
  shows "add_user (model_env gen) w =
           (Inr (),
            w\<lparr>stdin := rest,
              stdout := stdout w @
                [''Enter user'' @ quote @ ''s email>'',
                 ''Enter user'' @ quote @ ''s last (family) name>'',
                 ''Enter user'' @ quote @ ''s first (given) name>'',
                 ''Recorded in RDS under user id  '' @ str_int (next_id (map fst (users_table (ext w))))],
              calls := calls w @
                [Uuid4 (gen (uuid_count (ext w))),
                 PerformAction
                   ''INSERT INTO users(email, lastname, firstname, bucketfolder) VALUES (%s, %s, %s, %s)''
                   [email, last_name, first_name, gen (uuid_count (ext w))] (Inr 1),
                 RetrieveOneRow ''SELECT LAST_INSERT_ID();'' []
                   (Inr (Some [SqlInt (next_id (map fst (users_table (ext w))))]))],
              ext := (ext w)
                \<lparr>users_table := users_table (ext w) @
                   [(next_id (map fst (users_table (ext w))), email, last_name, first_name,
                     gen (uuid_count (ext w)))],
                 last_insert_id := next_id (map fst (users_table (ext w))),
                 uuid_count := Suc (uuid_count (ext w))\<rparr>\<rparr>)"
  using assms
  by (simp add: add_user_def bind_input_Cons bind_uuid4 bind_logged model_env_def
        datatier_perform_action_def datatier_retrieve_one_row_def model_perform_action_def
        model_retrieve_one_row_def subscript_def py_print_def Let_def)

lemma users_model:
  assumes "db_reachable (ext w)"
  shows "users (model_env gen) w =
           (Inr (),
            w\<lparr>stdout := stdout w @ concat (map user_block (order_desc fst (users_table (ext w)))),
              calls := calls w @
                [RetrieveAllRows ''SELECT * FROM users ORDER BY userid DESC''
                   (Inr (map user_row (order_desc fst (users_table (ext w)))))]\<rparr>)"
  using assms
  by (simp add: users_def bind_logged model_env_def datatier_retrieve_all_rows_def
        model_retrieve_all_rows_def for_each_print_user)

text \<open>
  C9: on the model of the database, when add-user succeeds (three lines were entered,
  the database is reachable and the email is not in use), it reports the new
  identifier, which is above every identifier in the table, and stores the row with the
  folder identifier that \<^verbatim>\<open>uuid4\<close> just returned; the list-users command that follows
  returns normally and the first four lines it prints are those of the new user, with
  that folder identifier.
\<close>

theorem add_user_then_users_lists_new_user_first:
  assumes "stdin w = email # last_name # first_name # rest"
      and "db_reachable (ext w)"
      and "email \<notin> set (map (\<lambda>u. fst (snd u)) (users_table (ext w)))"
  shows "let env = model_env gen;
             w1 = snd (add_user env w);
             w2 = snd (users env w1);
             userid = next_id (map fst (users_table (ext w)));
             folder = gen (uuid_count (ext w))
         in fst (add_user env w) = Inr ()
            \<and> last (new_lines w w1) = ''Recorded in RDS under user id  '' @ str_int userid
            \<and> Uuid4 folder \<in> set (new_calls w w1)
            \<and> users_table (ext w1) =
                users_table (ext w) @ [(userid, email, last_name, first_name, folder)]
            \<and> (\<forall>u \<in> set (users_table (ext w)). fst u < userid)
            \<and> fst (users env w1) = Inr ()
            \<and> take 4 (new_lines w1 w2) =
                user_block (userid, email, last_name, first_name, folder)"
proof -
  let ?userid = "next_id (map fst (users_table (ext w)))"
  let ?new = "(?userid, email, last_name, first_name, gen (uuid_count (ext w)))"
  have greatest: "\<forall>u \<in> set (users_table (ext w)). fst u < fst ?new"
    by (simp add: next_id_greater)
  have order: "order_desc fst (users_table (ext w) @ [?new]) =
                 ?new # order_desc fst (users_table (ext w))"
    using greatest by (rule order_desc_snoc_greatest)
  have block: "length (user_block ?new) = 4"
    by (simp add: user_block_def)
  show ?thesis
    using greatest block
    by (simp add: Let_def add_user_model [OF assms] users_model assms(2) order)
qed

lemma str_int_80002: "str_int 80002 = ''80002''"
  by (simp add: str_int_def str_nat.simps)

theorem add_user_then_users_lists_new_user_first_witness:
  "take 4
     (new_lines
        (snd (add_user (model_env example_gen) (example_world [''c@d.org'', ''Doe'', ''Ann''])))
        (snd (users (model_env example_gen)
           (snd (add_user (model_env example_gen) (example_world [''c@d.org'', ''Doe'', ''Ann'']))))))
   = [''User Id: 80002'', ''  Email: c@d.org'', ''  Name: Doe , Ann'',
      ''  Folder: 7c9e6679-7425-40de-944b-e07fc1f91000'']"
proof -
  let ?w = "example_world [''c@d.org'', ''Doe'', ''Ann'']"
  have h1: "stdin ?w = ''c@d.org'' # ''Doe'' # ''Ann'' # []"
    by (simp add: example_world_def)
  have h2: "db_reachable (ext ?w)"
    by (simp add: example_world_def example_outside_def)
  have h3: "''c@d.org'' \<notin> set (map (\<lambda>u. fst (snd u)) (users_table (ext ?w)))"
    by (simp add: example_world_def example_outside_def)
  have ident: "next_id (map fst (users_table (ext ?w))) = 80002"
    by (simp add: example_world_def example_outside_def next_id_def)
  have folder: "example_gen (uuid_count (ext ?w)) = ''7c9e6679-7425-40de-944b-e07fc1f91000''"
    by (simp add: example_world_def example_outside_def example_gen_0)
  have "take 4
     (new_lines (snd (add_user (model_env example_gen) ?w))
        (snd (users (model_env example_gen) (snd (add_user (model_env example_gen) ?w)))))
     = user_block (next_id (map fst (users_table (ext ?w))), ''c@d.org'', ''Doe'', ''Ann'',
                   example_gen (uuid_count (ext ?w)))"
    using add_user_then_users_lists_new_user_first [OF h1 h2 h3, of example_gen]
    unfolding Let_def by (elim conjE)
  then show ?thesis
    unfolding ident folder by (simp add: user_block_def str_int_80002)
qed

subsection \<open>Upload: the blob before the row\<close>

lemma triple_ret: "triple (Q x) (ret x) Q E"
  by (simp add: triple_def ret_def)

lemma triple_raise: "triple E (raise e) Q E"
  by (simp add: triple_def raise_def)

lemma triple_lift: "triple P (lift r) (\<lambda>_. P) P"
  by (simp add: triple_def lift_def split: sum.splits)

lemma triple_print: "triple P (py_print args) (\<lambda>_. P) E"
  by (simp add: triple_def py_print_def)

lemma triple_input: "triple P py_input (\<lambda>_. P) P"
  by (simp add: triple_def py_input_def split: list.splits)

lemma triple_bind:
  assumes "triple P m Q E" and "\<And>x. triple (Q x) (f x) R E"
  shows "triple P (bind_io m f) R E"
  using assms
  by (fastforce simp add: triple_def bind_io_def split: prod.splits sum.splits)

lemma triple_logged:
  assumes "\<And>e. P e \<Longrightarrow> (case g e of (Inl x, e') \<Rightarrow> E e' | (Inr x, e') \<Rightarrow> Q x e')"
  shows "triple P (logged g ev) Q E"
  using assms
  by (fastforce simp add: triple_def logged_def split: prod.splits sum.splits)

lemma triple_for_each:
  assumes "\<And>x. triple P (body x) (\<lambda>_. P) P"
  shows "triple P (for_each body xs) (\<lambda>_. P) P"
proof (induction xs)
  case Nil
  show ?case by (simp add: triple_def ret_def)
next
  case (Cons x xs)
  show ?case by (simp add: triple_bind [OF assms Cons])
qed

lemma triple_weaken:
  assumes "triple P m Q E" and "\<And>e. P' e \<Longrightarrow> P e"
  shows "triple P' m Q E"
  using assms by (simp add: triple_def)

lemma triple_path_exists: "triple P (os_path_exists env p) (\<lambda>_. P) E"
  by (simp add: triple_def os_path_exists_def Let_def)

lemma model_one_row_ext: "snd (model_retrieve_one_row e sql params) = e"
  by (simp add: model_retrieve_one_row_def split: option.splits prod.splits)

lemma model_all_rows_ext: "snd (model_retrieve_all_rows e sql) = e"
  by (simp add: model_retrieve_all_rows_def)

lemma triple_model_one_row:
  "triple P (datatier_retrieve_one_row (model_env gen) sql params) (\<lambda>_. P) P"
  unfolding datatier_retrieve_one_row_def
proof (rule triple_logged)
  fix e :: outside
  assume "P e"
  obtain r e' where eq: "model_retrieve_one_row e sql params = (r, e')"
    by (cases "model_retrieve_one_row e sql params")
  with model_one_row_ext [of e sql params] have "e' = e" by simp
  with \<open>P e\<close> eq
  show "case env_retrieve_one_row (model_env gen) e sql params of
          (Inl x, e') \<Rightarrow> P e' | (Inr x, e') \<Rightarrow> P e'"
    by (simp add: model_env_def split: sum.splits)
qed

lemma triple_model_all_rows:
  "triple P (datatier_retrieve_all_rows (model_env gen) sql) (\<lambda>_. P) P"
  unfolding datatier_retrieve_all_rows_def
proof (rule triple_logged)
  fix e :: outside
  assume "P e"
  obtain r e' where eq: "model_retrieve_all_rows e sql = (r, e')"
    by (cases "model_retrieve_all_rows e sql")
  with model_all_rows_ext [of e sql] have "e' = e" by simp
  with \<open>P e\<close> eq
  show "case env_retrieve_all_rows (model_env gen) e sql of
          (Inl x, e') \<Rightarrow> P e' | (Inr x, e') \<Rightarrow> P e'"
    by (simp add: model_env_def split: sum.splits)
qed

lemma triple_model_uuid4: "triple no_dangling (uuid_uuid4 (model_env gen)) (\<lambda>_. no_dangling) E"
  by (simp add: triple_def uuid_uuid4_def model_env_def no_dangling_def)

lemma triple_model_objects_all:
  "triple P (bucket_objects_all (model_env gen)) (\<lambda>_. P) P"
  unfolding bucket_objects_all_def
  by (rule triple_logged) (simp add: model_env_def)

lemma triple_model_display:
  "triple P (display_image (model_env gen) f) (\<lambda>_. P) P"
  unfolding display_image_def
  by (rule triple_logged) (simp add: model_env_def)

lemma triple_model_download:
  "triple no_dangling (awsutil_download_file (model_env gen) key filename)
     (\<lambda>_. no_dangling) no_dangling"
  unfolding awsutil_download_file_def
  by (rule triple_logged)
     (auto simp add: model_env_def model_download_file_def no_dangling_def
        split: sqlval.splits option.splits)

lemma triple_model_upload:
  "triple no_dangling (awsutil_upload_file (model_env gen) local_filename key)
     (\<lambda>r e. no_dangling e \<and> (\<forall>k. r = Some k \<longrightarrow> k \<in> set (map fst (bucket_objects e))))
     no_dangling"
  unfolding awsutil_upload_file_def
  by (rule triple_logged)
     (auto simp add: model_env_def model_upload_file_def no_dangling_def list_all_iff
        split: option.splits)

lemma triple_model_insert_user:
  "triple no_dangling
     (datatier_perform_action (model_env gen)
        ''INSERT INTO users(email, lastname, firstname, bucketfolder) VALUES (%s, %s, %s, %s)'' params)
     (\<lambda>_. no_dangling) no_dangling"
  unfolding datatier_perform_action_def
  by (rule triple_logged)
     (auto simp add: model_env_def model_perform_action_def no_dangling_def Let_def
        split: list.splits)

lemma triple_model_insert_asset:
  "triple (\<lambda>e. no_dangling e \<and> k \<in> set (map fst (bucket_objects e)))
     (datatier_perform_action (model_env gen)
        ''INSERT INTO assets(userid, assetname, bucketkey) VALUES (%s, %s, %s)''
        [user_id, local_filename, k])
     (\<lambda>_. no_dangling) no_dangling"
  unfolding datatier_perform_action_def
  by (rule triple_logged)
     (auto simp add: model_env_def model_perform_action_def no_dangling_def Let_def
        split: option.splits)


lemma inv_bind:
  assumes "triple I m (\<lambda>_. I) I" and "\<And>x. triple I (f x) (\<lambda>_. I) I"
  shows "triple I (bind_io m f) (\<lambda>_. I) I"
  using assms by (rule triple_bind)

lemma inv_ret: "triple I (ret x) (\<lambda>_. I) I"
  by (simp add: triple_def ret_def)

lemma inv_if:
  assumes "c \<Longrightarrow> triple P a Q E" and "\<not> c \<Longrightarrow> triple P b Q E"
  shows "triple P (if c then a else b) Q E"
  using assms by simp

lemmas inv_rules =
  inv_bind inv_ret inv_if triple_raise triple_lift triple_print triple_input
  triple_path_exists triple_for_each triple_model_one_row triple_model_all_rows
  triple_model_uuid4 triple_model_objects_all triple_model_display triple_model_download
  triple_model_insert_user

lemma inv_py_int: "triple I (py_int env s) (\<lambda>_. I) I"
  by (auto intro!: inv_rules simp add: py_int_def split: option.splits)

lemma inv_prompt: "triple I (prompt env) (\<lambda>_. I) I"
  unfolding prompt_def by (intro inv_rules inv_py_int)

lemma inv_print_count: "triple I (print_count label cnt) (\<lambda>_. I) I"
  by (auto intro!: inv_rules simp add: print_count_def split: option.splits list.splits)

lemma inv_stats:
  "triple no_dangling (stats (model_env gen) bucketname endpoint) (\<lambda>_. no_dangling) no_dangling"
  unfolding stats_def by (intro inv_rules inv_print_count)

lemma inv_print_user: "triple I (print_user user) (\<lambda>_. I) I"
  unfolding print_user_def by (intro inv_rules)

lemma inv_users:
  "triple no_dangling (users (model_env gen)) (\<lambda>_. no_dangling) no_dangling"
  unfolding users_def by (intro inv_rules inv_print_user)

lemma inv_print_asset: "triple I (print_asset asset) (\<lambda>_. I) I"
  by (auto intro!: inv_rules simp add: print_asset_def split: list.splits)

lemma inv_assets:
  "triple no_dangling (assets (model_env gen)) (\<lambda>_. no_dangling) no_dangling"
  unfolding assets_def by (intro inv_rules inv_print_asset)

lemma inv_download:
  "triple no_dangling (download (model_env gen) display) (\<lambda>_. no_dangling) no_dangling"
  unfolding download_def
  by (auto intro!: inv_rules split: option.splits list.splits)

lemma inv_add_user:
  "triple no_dangling (add_user (model_env gen)) (\<lambda>_. no_dangling) no_dangling"
  unfolding add_user_def
  by (auto intro!: inv_rules split: option.splits list.splits)


lemma inv_bind_upload:
  assumes "\<And>r. triple (\<lambda>e. no_dangling e \<and> (\<forall>k. r = Some k \<longrightarrow> k \<in> set (map fst (bucket_objects e))))
                  (f r) (\<lambda>_. no_dangling) no_dangling"
  shows "triple no_dangling (bind_io (awsutil_upload_file (model_env gen) local_filename key) f)
           (\<lambda>_. no_dangling) no_dangling"
  using triple_model_upload assms by (rule triple_bind)

lemma inv_bind_insert_asset:
  assumes "\<And>res. triple no_dangling (f res) (\<lambda>_. no_dangling) no_dangling"
  shows "triple (\<lambda>e. no_dangling e \<and> k \<in> fst ` set (bucket_objects e))
           (bind_io (datatier_perform_action (model_env gen)
                       ''INSERT INTO assets(userid, assetname, bucketkey) VALUES (%s, %s, %s)''
                       [user_id, local_filename, k]) f)
           (\<lambda>_. no_dangling) no_dangling"
  using triple_model_insert_asset [of k gen user_id local_filename] assms
  by (simp add: triple_bind)

lemma triple_print_weak:
  assumes "\<And>e. P e \<Longrightarrow> Q e"
  shows "triple P (py_print args) (\<lambda>_. Q) E"
  using assms by (simp add: triple_def py_print_def)

lemma inv_upload:
  "triple no_dangling (upload (model_env gen)) (\<lambda>_. no_dangling) no_dangling"
  unfolding upload_def
  apply (intro inv_bind_upload inv_bind inv_if triple_print triple_input triple_path_exists
           triple_model_one_row triple_model_uuid4)
  subgoal for _ local_fname _ _ user_id _ u r
  proof (cases r)
    case None
    then show ?thesis
      by simp (rule triple_print_weak, simp)
  next
    case (Some k)
    show ?thesis
    proof (cases k)
      case Nil
      with Some show ?thesis
        by simp (rule triple_print_weak, simp)
    next
      case (Cons c cs)
      show ?thesis
        unfolding Some Cons
        apply simp
        apply (rule triple_bind [OF triple_print])
        apply (rule inv_bind_insert_asset)
        apply (auto intro!: inv_rules split: option.splits)
        done
    qed
  qed
  done


lemma triple_inv_snd:
  assumes "triple I m (\<lambda>_. I) I" and "I (ext w)"
  shows "I (ext (snd (m w)))"
proof (cases "m w")
  case (Pair r w')
  with assms show ?thesis
    by (cases r) (auto simp add: triple_def)
qed

lemma inv_dispatch:
  "triple no_dangling (dispatch (model_env gen) bucketname endpoint cmd)
     (\<lambda>_. no_dangling) no_dangling"
  unfolding dispatch_def
  by (intro inv_if inv_stats inv_users inv_assets inv_download inv_upload inv_add_user
        triple_print)

lemma loop_step_no_dangling:
  assumes "no_dangling (ext w)"
  shows "case loop_step (model_env gen) bucketname endpoint w of
           AWAITING_COMMAND w' \<Rightarrow> no_dangling (ext w')
         | TERMINATED r w' \<Rightarrow> no_dangling (ext w')"
proof -
  obtain rp w1 where p: "prompt (model_env gen) w = (rp, w1)"
    by (cases "prompt (model_env gen) w")
  have w1: "no_dangling (ext w1)"
    using inv_prompt [of no_dangling "model_env gen"] assms p
    by (auto simp add: triple_def split: sum.splits)
  show ?thesis
  proof (cases rp)
    case (Inl e)
    with p w1 show ?thesis by (simp add: loop_step_def)
  next
    case (Inr cmd)
    obtain rd w2 where d: "dispatch (model_env gen) bucketname endpoint cmd w1 = (rd, w2)"
      by (cases "dispatch (model_env gen) bucketname endpoint cmd w1")
    have "no_dangling (ext w2)"
      using inv_dispatch [of gen bucketname endpoint cmd] w1 d
      by (auto simp add: triple_def split: sum.splits)
    with p w1 Inr d show ?thesis
      by (simp add: loop_step_def split: sum.splits)
  qed
qed

lemma main_loop_no_dangling:
  "no_dangling (ext w) \<Longrightarrow> main_loop (model_env gen) bucketname endpoint n w = Some (r, w')
   \<Longrightarrow> no_dangling (ext w')"
proof (induction n arbitrary: w)
  case 0
  then show ?case by simp
next
  case (Suc n)
  from loop_step_no_dangling [OF Suc.prems(1), of gen bucketname endpoint] Suc.prems(2) Suc.IH
  show ?case
    by (auto split: loop_state.splits option.splits)
qed

lemma bind_input:
  "bind_io py_input f w =
     (case stdin w of [] \<Rightarrow> (Inl EOFError, w) | l # ls \<Rightarrow> f l (w\<lparr>stdin := ls\<rparr>))"
  by (simp add: bind_io_def py_input_def split: list.splits)

lemma upload_trace:
  "\<exists>cs ls. calls (snd (upload env w)) = calls w @ cs
     \<and> stdout (snd (upload env w)) = stdout w @ ls
     \<and> writes_follow_upload None cs
     \<and> (list_ex upload_failed cs \<longrightarrow>
          fst (upload env w) = Inr ()
          \<and> last ls = ''Failed to upload the file to S3.''
          \<and> filter db_write cs = []
          \<and> upload_failed (last cs))"
  by (auto simp add: upload_def bind_input bind_path_exists bind_logged bind_uuid4
        datatier_retrieve_one_row_def datatier_perform_action_def awsutil_upload_file_def
        py_print_def raise_def subscript_def lift_def
        split: list.splits option.splits sum.splits prod.splits)

text \<open>
  C1: in every run of the upload command, whatever the collaborators do, every write
  to the database comes after an upload that returned a key, and it is the insertion of
  the asset row with the file name and the key of that upload. When the upload returns
  no key, the command returns normally, its last line is the failure message, it makes
  no write to the database, and the failed upload is its last call. On the model of the
  collaborators, the upload command, and every run of the whole command loop, keep the
  invariant that the key of every asset row is the key of a blob in the bucket; and the
  loop does return once the bound on its turns exceeds the number of lines of input.
\<close>

theorem upload_before_insert:
  "writes_follow_upload None (new_calls w (snd (upload env w)))
   \<and> (list_ex upload_failed (new_calls w (snd (upload env w))) \<longrightarrow>
        fst (upload env w) = Inr ()
        \<and> last (new_lines w (snd (upload env w))) = ''Failed to upload the file to S3.''
        \<and> filter db_write (new_calls w (snd (upload env w))) = []
        \<and> upload_failed (last (new_calls w (snd (upload env w)))))
   \<and> (no_dangling (ext m) \<longrightarrow> no_dangling (ext (snd (upload (model_env gen) m))))
   \<and> (no_dangling (ext m) \<and> main_loop (model_env gen) bucketname endpoint n m = Some (r, m')
        \<longrightarrow> no_dangling (ext m'))
   \<and> (length (stdin m) < n
        \<longrightarrow> (\<exists>r m'. main_loop (model_env gen) bucketname endpoint n m = Some (r, m')))"
proof -
  obtain cs ls where
    c: "calls (snd (upload env w)) = calls w @ cs" and
    l: "stdout (snd (upload env w)) = stdout w @ ls" and
    t: "writes_follow_upload None cs" and
    f: "list_ex upload_failed cs \<longrightarrow>
          fst (upload env w) = Inr ()
          \<and> last ls = ''Failed to upload the file to S3.''
          \<and> filter db_write cs = []
          \<and> upload_failed (last cs)"
    using upload_trace [of env w] by blast
  have nc: "new_calls w (snd (upload env w)) = cs"
    using c by simp
  have nl: "new_lines w (snd (upload env w)) = ls"
    using l by simp
  have u: "no_dangling (ext m) \<longrightarrow> no_dangling (ext (snd (upload (model_env gen) m)))"
    using triple_inv_snd [OF inv_upload] by blast
  have lp: "no_dangling (ext m) \<and> main_loop (model_env gen) bucketname endpoint n m = Some (r, m')
        \<longrightarrow> no_dangling (ext m')"
    using main_loop_no_dangling by blast
  have tot: "length (stdin m) < n
        \<longrightarrow> (\<exists>r m'. main_loop (model_env gen) bucketname endpoint n m = Some (r, m'))"
    using main_loop_returns by blast
  show ?thesis
    unfolding nc nl using t f u lp tot by blast
qed


theorem upload_before_insert_witness:
  "fst (upload (model_env example_gen)
          (example_world [''photo.jpg'', ''80001'']
             \<lparr>ext := example_outside\<lparr>store_reachable := False\<rparr>\<rparr>)) = Inr ()
   \<and> last (new_lines
        (example_world [''photo.jpg'', ''80001'']
           \<lparr>ext := example_outside\<lparr>store_reachable := False\<rparr>\<rparr>)
        (snd (upload (model_env example_gen)
           (example_world [''photo.jpg'', ''80001'']
              \<lparr>ext := example_outside\<lparr>store_reachable := False\<rparr>\<rparr>)))) =
       ''Failed to upload the file to S3.''
   \<and> filter db_write (new_calls
        (example_world [''photo.jpg'', ''80001'']
           \<lparr>ext := example_outside\<lparr>store_reachable := False\<rparr>\<rparr>)
        (snd (upload (model_env example_gen)
           (example_world [''photo.jpg'', ''80001'']
              \<lparr>ext := example_outside\<lparr>store_reachable := False\<rparr>\<rparr>)))) = []
   \<and> no_dangling
        (ext (snd (upload (model_env example_gen) (example_world [''photo.jpg'', ''80001'']))))"
proof -
  let ?env = "model_env example_gen"
  let ?wf = "example_world [''photo.jpg'', ''80001'']
               \<lparr>ext := example_outside\<lparr>store_reachable := False\<rparr>\<rparr>"
  let ?m = "example_world [''photo.jpg'', ''80001'']"
  have failed: "list_ex upload_failed (new_calls ?wf (snd (upload ?env ?wf)))"
    by (simp add: upload_def example_world_def example_outside_def model_env_def
          bind_input_Cons bind_path_exists bind_logged bind_uuid4
          datatier_retrieve_one_row_def awsutil_upload_file_def
          model_retrieve_one_row_def model_upload_file_def py_print_def new_calls_def)
  have inv: "no_dangling (ext ?m)"
    by (simp add: no_dangling_def example_world_def example_outside_def)
  from upload_before_insert [where w = ?wf and env = ?env and m = ?m and gen = example_gen]
       failed inv
  show ?thesis by blast
qed

end
